theory Spec2Isabelle
  imports Main "HOL-Library.Sublist"
begin

section \<open>Strings\<close>

text \<open>
  JavaScript strings are modelled as \<^typ>\<open>string\<close>, a list of 8-bit characters read as the
  code units U+0000 to U+00FF, so the model covers text in that range exactly:
  \<open>slice(0, n)\<close> is \<^const>\<open>take\<close>, \<open>s.length\<close> is \<^const>\<open>length\<close>, \<open>s.includes(t)\<close> is the
  substring test \<open>str_includes s t\<close>, and \<open>toLowerCase\<close> maps \<open>A..Z\<close> to \<open>a..z\<close> and the
  capital letters U+00C0 to U+00DE (U+00D7, the multiplication sign, is none) to the letters
  32 places up, leaving every other character alone.
\<close>

definition upperLetters :: string where
  "upperLetters =
     ''ABCDEFGHIJKLMNOPQRSTUVWXYZ'' @
     [CHR 0xC0, CHR 0xC1, CHR 0xC2, CHR 0xC3, CHR 0xC4, CHR 0xC5, CHR 0xC6, CHR 0xC7, CHR 0xC8,
      CHR 0xC9, CHR 0xCA, CHR 0xCB, CHR 0xCC, CHR 0xCD, CHR 0xCE, CHR 0xCF, CHR 0xD0, CHR 0xD1,
      CHR 0xD2, CHR 0xD3, CHR 0xD4, CHR 0xD5, CHR 0xD6, CHR 0xD8, CHR 0xD9, CHR 0xDA, CHR 0xDB,
      CHR 0xDC, CHR 0xDD, CHR 0xDE]"

definition lowerLetters :: string where
  "lowerLetters =
     ''abcdefghijklmnopqrstuvwxyz'' @
     [CHR 0xE0, CHR 0xE1, CHR 0xE2, CHR 0xE3, CHR 0xE4, CHR 0xE5, CHR 0xE6, CHR 0xE7, CHR 0xE8,
      CHR 0xE9, CHR 0xEA, CHR 0xEB, CHR 0xEC, CHR 0xED, CHR 0xEE, CHR 0xEF, CHR 0xF0, CHR 0xF1,
      CHR 0xF2, CHR 0xF3, CHR 0xF4, CHR 0xF5, CHR 0xF6, CHR 0xF8, CHR 0xF9, CHR 0xFA, CHR 0xFB,
      CHR 0xFC, CHR 0xFD, CHR 0xFE]"

definition lowerChar :: "char \<Rightarrow> char" where
  "lowerChar c = (case map_of (zip upperLetters lowerLetters) c of Some d \<Rightarrow> d | None \<Rightarrow> c)"

definition toLowerCase :: "string \<Rightarrow> string" where
  "toLowerCase s = map lowerChar s"

fun str_includes :: "string \<Rightarrow> string \<Rightarrow> bool" where
  "str_includes [] needle = (needle = [])"
| "str_includes (c # cs) needle = (prefix needle (c # cs) \<or> str_includes cs needle)"

section \<open>Blocking detector\<close>

subsection \<open>HTTP-first program (part 001)\<close>

text \<open>
  \<^verbatim>\<open>function isBlockedHtml(html) {
    if (!html) return false;
    const sample = html.slice(0, 5000).toLowerCase();
    return sample.includes('just a moment') || sample.includes('checking your browser')
        || sample.includes('cf-browser-verification') || sample.includes('cloudflare'); }\<close>
\<close>

definition blockedPhrases :: "string list" where
  "blockedPhrases =
     [''just a moment'', ''checking your browser'', ''cf-browser-verification'', ''cloudflare'']"

definition isBlockedHtml :: "string \<Rightarrow> bool" where
  "isBlockedHtml html =
     (if html = [] then False
      else (let sample = toLowerCase (take 5000 html) in
        str_includes sample ''just a moment'' \<or>
        str_includes sample ''checking your browser'' \<or>
        str_includes sample ''cf-browser-verification'' \<or>
        str_includes sample ''cloudflare''))"

text \<open>The result of \<open>fetchHttp\<close>: the fields the run loop reads.\<close>

record fetchResult =
  url :: string
  statusCode :: int
  body :: string

text \<open>
  \<^verbatim>\<open>const blocked = isBlockedHtml(r.body) || r.statusCode === 403
      || r.statusCode === 429 || r.statusCode === 503;\<close>
\<close>

definition blocked :: "fetchResult \<Rightarrow> bool" where
  "blocked r =
     (isBlockedHtml (body r) \<or> statusCode r = 403 \<or> statusCode r = 429 \<or> statusCode r = 503)"

subsection \<open>CheerioCrawler program (main.js)\<close>

text \<open>
  \<^verbatim>\<open>function isBlockedHtml(html) {
    if (!html) return false;
    const lower = html.toLowerCase();
    return lower.includes('just a moment') || lower.includes('verify you are human')
        || lower.includes('cf-browser-verification') || lower.includes('access denied')
        || lower.includes('security of your connection'); }
  ...
  const blocked = statusCode === 403 || isBlockedHtml(htmlSnapshot);\<close>
  The status code is \<open>response?.statusCode\<close>, absent when there is no response.
\<close>

definition isBlockedHtml_cheerio :: "string \<Rightarrow> bool" where
  "isBlockedHtml_cheerio html =
     (if html = [] then False
      else (let lower = toLowerCase html in
        str_includes lower ''just a moment'' \<or>
        str_includes lower ''verify you are human'' \<or>
        str_includes lower ''cf-browser-verification'' \<or>
        str_includes lower ''access denied'' \<or>
        str_includes lower ''security of your connection''))"

definition blockedPhrases_cheerio :: "string list" where
  "blockedPhrases_cheerio =
     [''just a moment'', ''verify you are human'', ''cf-browser-verification'', ''access denied'',
      ''security of your connection'']"

definition blocked_cheerio :: "int option \<Rightarrow> string \<Rightarrow> bool" where
  "blocked_cheerio status htmlSnapshot = (status = Some 403 \<or> isBlockedHtml_cheerio htmlSnapshot)"

section \<open>JavaScript values and records\<close>

text \<open>
  The values \<open>JSON.parse\<close> produces, and \<open>undefined\<close> for a property that is absent. An
  object is the list of its own properties; where a name occurs twice the first entry counts.
  A number is kept as its decimal rendering, the string \<open>String(n)\<close> gives (\<open>5\<close>, \<open>0.5\<close>,
  \<open>1e+21\<close>): the program never computes with a number of a payload, it tests it for zero and
  prints it.
\<close>

datatype jsv =
    JUndefined | JNull | JBool bool | JNum string | JStr string
  | JArr "jsv list" | JObj "(string \<times> jsv) list"

text \<open>
  The exceptions of the language that the programs can meet on such values. Exhaustion of the
  call stack is a limit of the machine and is not modelled.
\<close>

datatype jsError = TypeError

text \<open>Truthiness, as \<open>!x\<close>, \<open>x || y\<close> and \<open>if (x)\<close> read it.\<close>

fun truthy :: "jsv \<Rightarrow> bool" where
  "truthy JUndefined = False"
| "truthy JNull = False"
| "truthy (JBool b) = b"
| "truthy (JNum n) = (n \<noteq> ''0'' \<and> n \<noteq> ''NaN'')"
| "truthy (JStr s) = (s \<noteq> [])"
| "truthy (JArr xs) = True"
| "truthy (JObj kvs) = True"

text \<open>\<open>a || b\<close> on values.\<close>

definition jsOr :: "jsv \<Rightarrow> jsv \<Rightarrow> jsv" where
  "jsOr a b = (if truthy a then a else b)"

definition digitChar :: "nat \<Rightarrow> char" where
  "digitChar d = ''0123456789'' ! d"

fun showNat :: "nat \<Rightarrow> string" where
  "showNat n = (if n < 10 then [digitChar n] else showNat (n div 10) @ [digitChar (n mod 10)])"

fun join :: "string \<Rightarrow> string list \<Rightarrow> string" where
  "join sep [] = []"
| "join sep [s] = s"
| "join sep (s # t # ss) = s @ sep @ join sep (t # ss)"

text \<open>
  String conversion, as a template literal \<open>`${x}`\<close> and \<open>Array.prototype.join\<close> perform it.
  An array is its elements joined by commas, with \<open>null\<close> and \<open>undefined\<close> elements empty. An
  object is \<open>[object Object]\<close>, unless it has a property \<open>toString\<close> of its own: a value of a
  payload is never a function, so the conversion then finds no method that gives a primitive
  (\<open>valueOf\<close> gives the object back) and raises a \<open>TypeError\<close>.
\<close>

fun toStr :: "jsv \<Rightarrow> jsError + string" and elemStrs :: "jsv list \<Rightarrow> jsError + string list" where
  "toStr JUndefined = Inr ''undefined''"
| "toStr JNull = Inr ''null''"
| "toStr (JBool b) = Inr (if b then ''true'' else ''false'')"
| "toStr (JNum n) = Inr n"
| "toStr (JStr s) = Inr s"
| "toStr (JArr xs) = (case elemStrs xs of Inl err \<Rightarrow> Inl err | Inr ss \<Rightarrow> Inr (join '','' ss))"
| "toStr (JObj kvs) = (if map_of kvs ''toString'' = None then Inr ''[object Object]'' else Inl TypeError)"
| "elemStrs [] = Inr []"
| "elemStrs (x # xs) =
     (case (if x = JUndefined \<or> x = JNull then Inr [] else toStr x) of
        Inl err \<Rightarrow> Inl err
      | Inr s \<Rightarrow> (case elemStrs xs of Inl err \<Rightarrow> Inl err | Inr ss \<Rightarrow> Inr (s # ss)))"

text \<open>\<open>xs.join(sep)\<close> on an array.\<close>

definition arrayJoin :: "string \<Rightarrow> jsv list \<Rightarrow> jsError + jsv" where
  "arrayJoin sep xs = (case elemStrs xs of Inl err \<Rightarrow> Inl err | Inr ss \<Rightarrow> Inr (JStr (join sep ss)))"

text \<open>
  The output record. \<open>website\<close> is always a string built by \<open>absoluteUrl\<close> and \<open>scrapedAt\<close> a
  timestamp; the other fields hold whatever the extractor found.
\<close>

record 'v lawyer =
  name :: 'v
  firmName :: 'v
  location :: 'v
  address :: 'v
  phone :: 'v
  email :: 'v
  website :: string
  practiceAreas :: 'v
  description :: 'v
  yearsLicensed :: 'v
  biography :: 'v
  education :: 'v
  barAdmissions :: 'v
  languages :: 'v
  scrapedAt :: string

section \<open>Deduplication and the record budget\<close>

subsection \<open>CheerioCrawler program (main.js, lines 737-751)\<close>

text \<open>
  \<^verbatim>\<open>for (const lawyer of lawyers) {
    const dedupKey = lawyer.website || `${lawyer.name}|${lawyer.location}|${lawyer.firmName}`;
    if (seenWebsites.has(dedupKey)) { filtered++; continue; }
    if (maxLawyers > 0 && totalScraped >= maxLawyers) break;
    seenWebsites.add(dedupKey); unique.push(lawyer); totalScraped++;
  }\<close>
  The counter \<open>filtered\<close> is only logged and is left out. The template literal converts the
  three fields to strings in turn and can raise a \<open>TypeError\<close>; the loop is then left with
  \<open>seenWebsites\<close> and \<open>totalScraped\<close>, which are variables of the run, as they are at that moment.
  The result of \<open>admitLoop\<close> is the exception, if any, and the three variables.
\<close>

definition dedupKey :: "jsv lawyer \<Rightarrow> jsError + string" where
  "dedupKey l =
     (if website l \<noteq> [] then Inr (website l)
      else case toStr (name l) of
        Inl err \<Rightarrow> Inl err
      | Inr n \<Rightarrow>
          (case toStr (location l) of
             Inl err \<Rightarrow> Inl err
           | Inr loc \<Rightarrow>
               (case toStr (firmName l) of
                  Inl err \<Rightarrow> Inl err
                | Inr firm \<Rightarrow> Inr (n @ ''|'' @ loc @ ''|'' @ firm))))"

fun admitLoop ::
  "nat \<Rightarrow> jsv lawyer list \<Rightarrow> string set \<times> nat \<times> jsv lawyer list
     \<Rightarrow> jsError option \<times> string set \<times> nat \<times> jsv lawyer list" where
  "admitLoop maxL [] st = (None, st)"
| "admitLoop maxL (l # ls) (seen, scraped, unique) =
     (case dedupKey l of
        Inl err \<Rightarrow> (Some err, seen, scraped, unique)
      | Inr k \<Rightarrow>
          if k \<in> seen then admitLoop maxL ls (seen, scraped, unique)
          else if maxL > 0 \<and> scraped \<ge> maxL then (None, seen, scraped, unique)
          else admitLoop maxL ls (insert k seen, scraped + 1, unique @ [l]))"

text \<open>
  The same selection written as a filter, for comparison with the loop: the candidates in
  order, without those whose key is already known or occurred earlier in the list, up to the
  first candidate whose key cannot be printed; and the cut at what is left of the budget.
\<close>

fun freshByKey :: "string set \<Rightarrow> jsv lawyer list \<Rightarrow> jsv lawyer list" where
  "freshByKey seen [] = []"
| "freshByKey seen (l # ls) =
     (case dedupKey l of
        Inl err \<Rightarrow> []
      | Inr k \<Rightarrow> if k \<in> seen then freshByKey seen ls else l # freshByKey (insert k seen) ls)"

definition withinBudget :: "nat \<Rightarrow> nat \<Rightarrow> 'a list \<Rightarrow> 'a list" where
  "withinBudget maxL scraped xs = (if maxL > 0 then take (maxL - scraped) xs else xs)"

subsection \<open>HTTP-first program (part 001, lines 595-604)\<close>

text \<open>
  \<^verbatim>\<open>const remaining = maxLawyers > 0 ? Math.max(0, maxLawyers - totalScraped) : lawyers.length;
  const unique = [];
  for (const l of lawyers) {
    if (!l.website) continue;
    if (seenWebsites.has(l.website)) continue;
    seenWebsites.add(l.website);
    unique.push(l);
    if (maxLawyers > 0 && unique.length >= remaining) break;
  }\<close>
\<close>

definition remainingOf :: "nat \<Rightarrow> nat \<Rightarrow> 'a list \<Rightarrow> nat" where
  "remainingOf maxL scraped lawyers = (if maxL > 0 then maxL - scraped else length lawyers)"

fun uniqueLoop ::
  "nat \<Rightarrow> nat \<Rightarrow> jsv lawyer list \<Rightarrow> string set \<times> jsv lawyer list
     \<Rightarrow> string set \<times> jsv lawyer list" where
  "uniqueLoop maxL remaining [] st = st"
| "uniqueLoop maxL remaining (l # ls) (seen, unique) =
     (if website l = [] then uniqueLoop maxL remaining ls (seen, unique)
      else if website l \<in> seen then uniqueLoop maxL remaining ls (seen, unique)
      else if maxL > 0 \<and> length (unique @ [l]) \<ge> remaining
        then (insert (website l) seen, unique @ [l])
      else uniqueLoop maxL remaining ls (insert (website l) seen, unique @ [l]))"

section \<open>The strategy cascade\<close>

text \<open>
  Each stage is given the lists its extractors return on the page at hand.

  CheerioCrawler program (main.js, lines 703-724): every extractor runs and every non-empty
  result is appended.
  \<^verbatim>\<open>let lawyers = [];
  if (htmlSnapshot) {
    const jsonLdLawyers = extractLawyersFromJsonLdHtml(...);
    if (jsonLdLawyers.length) { lawyers.push(...jsonLdLawyers); ... }
    const nextDataLawyers = extractLawyersFromNextData(...);
    if (nextDataLawyers.length) { lawyers.push(...nextDataLawyers); ... }
    const htmlLawyers = extractListingViaHtml(...);
    if (htmlLawyers.length) { lawyers.push(...htmlLawyers); ... }
  }\<close>
\<close>

definition collectLawyers :: "string \<Rightarrow> 'r list \<Rightarrow> 'r list \<Rightarrow> 'r list \<Rightarrow> 'r list" where
  "collectLawyers htmlSnap jsonLd nextData viaHtml =
     (if htmlSnap = [] then []
      else (let lawyers = [];
                lawyers = (if jsonLd \<noteq> [] then lawyers @ jsonLd else lawyers);
                lawyers = (if nextData \<noteq> [] then lawyers @ nextData else lawyers);
                lawyers = (if viaHtml \<noteq> [] then lawyers @ viaHtml else lawyers)
            in lawyers))"

text \<open>
  HTTP-first program (part 001, lines 555-576): JSON API, then embedded JSON, then HTML, each
  tried only while the list is still empty.
  \<^verbatim>\<open>let lawyers = [];
  if (!blocked) { const apiRes = await extractListingViaJsonApi(...); lawyers = apiRes.lawyers; ... }
  if (!lawyers.length && !blocked) { lawyers = extractListingViaEmbeddedJson(...); ... }
  if (!lawyers.length && !blocked) { lawyers = extractListingViaHtml(...); ... }\<close>
\<close>

definition cascadeHttp :: "bool \<Rightarrow> 'r list \<Rightarrow> 'r list \<Rightarrow> 'r list \<Rightarrow> 'r list" where
  "cascadeHttp isBlocked viaApi viaEmbedded viaHtml =
     (let lawyers = [];
          lawyers = (if \<not> isBlocked then viaApi else lawyers);
          lawyers = (if lawyers = [] \<and> \<not> isBlocked then viaEmbedded else lawyers);
          lawyers = (if lawyers = [] \<and> \<not> isBlocked then viaHtml else lawyers)
      in lawyers)"

text \<open>
  Camoufox program (main.js, lines 1230-1256): the JSON-LD scripts in document order, stopping at
  the first whose extraction is non-empty; HTML parsing only if none was. \<open>perScript\<close> holds, for
  each script that parses to a truthy value, what \<open>extractLawyersFromJsonLd\<close> does on it: it
  returns a list or raises an exception, which leaves the loop and the handler.
  \<^verbatim>\<open>for (const script of jsonLdScripts) {
    const data = safeJsonParse(await script.textContent());
    if (data) {
      const extracted = extractLawyersFromJsonLd(data, request.url);
      if (extracted.length > 0) { lawyers = extracted; ...; break; }
    }
  }
  if (!lawyers.length) { lawyers = extractListingViaHtml({ html, pageUrl: request.url }); ... }\<close>
\<close>

fun firstJsonLd :: "(jsError + 'r list) list \<Rightarrow> jsError + 'r list" where
  "firstJsonLd [] = Inr []"
| "firstJsonLd (Inl err # rest) = Inl err"
| "firstJsonLd (Inr extracted # rest) = (if extracted \<noteq> [] then Inr extracted else firstJsonLd rest)"

definition cascadeBrowser :: "(jsError + 'r list) list \<Rightarrow> 'r list \<Rightarrow> jsError + 'r list" where
  "cascadeBrowser perScript viaHtml =
     (case firstJsonLd perScript of
        Inl err \<Rightarrow> Inl err
      | Inr lawyers \<Rightarrow> Inr (if lawyers = [] then viaHtml else lawyers))"

section \<open>Crawler request handlers\<close>

record config =
  maxLawyers :: nat
  maxPages :: nat
  fetchFullProfiles :: bool

text \<open>The run's counters, its ledger of seen identity keys, and the dataset (the sink).\<close>

record ledger =
  seenWebsites :: "string set"
  totalScraped :: nat
  pagesProcessed :: nat
  dataset :: "jsv lawyer list"

record request =
  reqUrl :: string
  retryCount :: nat

text \<open>
  What a call of a handler comes to: it returns, or it throws. The counters and the ledger are
  variables of the run, so a handler that throws leaves them as they are at that moment:
  \<open>Throws l\<close> carries them.
\<close>

datatype 'a outcome = Throws ledger | Returns 'a

fun isThrows :: "'a outcome \<Rightarrow> bool" where
  "isThrows (Throws l) = True"
| "isThrows (Returns r) = False"

text \<open>
  A listing page as the handler sees it: the response status, the body, and what each extractor
  and \<open>findNextPageUrl\<close> return on that body (they are functions of the body and the page
  URL). \<open>extractLawyersFromJsonLdHtml\<close> and \<open>extractLawyersFromNextData\<close> walk parsed JSON and
  can throw; \<open>extractListingViaHtml\<close> and \<open>findNextPageUrl\<close> read strings off the document.
\<close>

record listing =
  responseStatus :: "int option"
  htmlSnapshot :: string
  jsonLdLawyers :: "jsError + jsv lawyer list"
  nextDataLawyers :: "jsError + jsv lawyer list"
  htmlLawyers :: "jsv lawyer list"
  nextPageUrl :: string

text \<open>
  The end of the handler, the same text in all three crawler programs (main.js lines 808-824 and
  1334-1351, part 002 lines 582-599): the URLs handed to \<open>addRequests\<close>.
  \<^verbatim>\<open>if (maxLawyers > 0 && totalScraped >= maxLawyers) { ...; return; }
  if (maxPages > 0 && pagesProcessed >= maxPages) { ...; return; }
  const nextUrl = findNextPageUrl({ html, pageUrl: request.url });
  if (nextUrl && nextUrl !== request.url) {
    await selfCrawler.addRequests([{ url: nextUrl, uniqueKey: nextUrl }]);
  } else { log.info('No next page found, crawler will finish'); }\<close>
\<close>

definition enqueueNext :: "config \<Rightarrow> ledger \<Rightarrow> string \<Rightarrow> string \<Rightarrow> string list" where
  "enqueueNext cfg l requestUrl nextUrl =
     (if maxLawyers cfg > 0 \<and> totalScraped l \<ge> maxLawyers cfg then []
      else if maxPages cfg > 0 \<and> pagesProcessed l \<ge> maxPages cfg then []
      else if nextUrl \<noteq> [] \<and> nextUrl \<noteq> requestUrl then [nextUrl]
      else [])"

text \<open>
  Enrichment of the admitted records (main.js lines 758-782); \<open>enrich\<close> stands for
  \<open>enrichProfileWithDetailsHttp\<close> with its fetch. The result is what \<open>pushData\<close> receives.
\<close>

definition enrichAll :: "config \<Rightarrow> (jsv lawyer \<Rightarrow> jsv lawyer) \<Rightarrow> jsv lawyer list \<Rightarrow> jsv lawyer list" where
  "enrichAll cfg enrich unique =
     (if fetchFullProfiles cfg \<and> unique \<noteq> []
      then map (\<lambda>baseLawyer. if website baseLawyer = [] then baseLawyer else enrich baseLawyer) unique
      else unique)"

text \<open>
  The handler of the CheerioCrawler program (main.js lines 671-825). A blocked page makes it
  throw while \<open>request.retryCount < 2\<close>, which has the crawler fetch the URL again; on the
  third attempt the page is processed as it came. \<open>processListing\<close> is the handler from line 703
  on: extraction, deduplication, enrichment, storing, and the next page.
  \<^verbatim>\<open>const blocked = statusCode === 403 || isBlockedHtml(htmlSnapshot);
  if (blocked) {
    ...
    if (session) session.retire();
    if (request.retryCount < 2) { throw new Error(`Blocked status ${statusCode || 'unknown'}`); }
  }\<close>
\<close>

definition processListing ::
  "config \<Rightarrow> (jsv lawyer \<Rightarrow> jsv lawyer) \<Rightarrow> ledger \<Rightarrow> request \<Rightarrow> listing
     \<Rightarrow> (ledger \<times> string list) outcome" where
  "processListing cfg enrich l req pg =
     (case (if htmlSnapshot pg = [] then Inr [] else jsonLdLawyers pg) of
        Inl err \<Rightarrow> Throws l
      | Inr jsonLd \<Rightarrow>
          (case (if htmlSnapshot pg = [] then Inr [] else nextDataLawyers pg) of
             Inl err \<Rightarrow> Throws l
           | Inr nextData \<Rightarrow>
               (let lawyers = collectLawyers (htmlSnapshot pg) jsonLd nextData (htmlLawyers pg) in
                case admitLoop (maxLawyers cfg) lawyers (seenWebsites l, totalScraped l, []) of
                  (Some err, seen, scraped, unique) \<Rightarrow>
                    Throws (l\<lparr>seenWebsites := seen, totalScraped := scraped\<rparr>)
                | (None, seen, scraped, unique) \<Rightarrow>
                    (let l' = l\<lparr>seenWebsites := seen, totalScraped := scraped,
                                pagesProcessed := pagesProcessed l + 1,
                                dataset := dataset l @ enrichAll cfg enrich unique\<rparr>
                     in Returns (l', enqueueNext cfg l' (reqUrl req) (nextPageUrl pg))))))"

definition requestHandler ::
  "config \<Rightarrow> (jsv lawyer \<Rightarrow> jsv lawyer) \<Rightarrow> ledger \<Rightarrow> request \<Rightarrow> listing
     \<Rightarrow> (ledger \<times> string list) outcome" where
  "requestHandler cfg enrich l req pg =
     (if blocked_cheerio (responseStatus pg) (htmlSnapshot pg) \<and> retryCount req < 2 then Throws l
      else processListing cfg enrich l req pg)"

text \<open>
  The handler of the browser-first program (part 002 lines 421-600). \<open>ldPerScript\<close> and
  \<open>embeddedPerScript\<close> hold, in document order, what each JSON-LD script and each relevant
  inline script yields; the first non-empty one wins, then HTML parsing.
  \<^verbatim>\<open>for (const lawyer of lawyers) {
    if (!lawyer.website || seenWebsites.has(lawyer.website)) continue;
    if (maxLawyers > 0 && totalScraped >= maxLawyers) break;
    seenWebsites.add(lawyer.website); unique.push(lawyer); totalScraped++;
  }\<close>
\<close>

record rendered =
  ldPerScript :: "(jsError + jsv lawyer list) list"
  embeddedPerScript :: "jsv lawyer list list"
  parsedLawyers :: "jsv lawyer list"
  nextLink :: string

fun firstNonEmpty :: "'r list list \<Rightarrow> 'r list" where
  "firstNonEmpty [] = []"
| "firstNonEmpty (extracted # rest) = (if extracted \<noteq> [] then extracted else firstNonEmpty rest)"

fun admitLoop_browser ::
  "nat \<Rightarrow> jsv lawyer list \<Rightarrow> string set \<times> nat \<times> jsv lawyer list
     \<Rightarrow> string set \<times> nat \<times> jsv lawyer list" where
  "admitLoop_browser maxL [] st = st"
| "admitLoop_browser maxL (l # ls) (seen, scraped, unique) =
     (if website l = [] \<or> website l \<in> seen then admitLoop_browser maxL ls (seen, scraped, unique)
      else if maxL > 0 \<and> scraped \<ge> maxL then (seen, scraped, unique)
      else admitLoop_browser maxL ls (insert (website l) seen, scraped + 1, unique @ [l]))"

definition requestHandler_browser ::
  "config \<Rightarrow> (jsv lawyer \<Rightarrow> jsv lawyer) \<Rightarrow> ledger \<Rightarrow> request \<Rightarrow> rendered
     \<Rightarrow> (ledger \<times> string list) outcome" where
  "requestHandler_browser cfg enrich l req pg =
     (case firstJsonLd (ldPerScript pg) of
        Inl err \<Rightarrow> Throws l
      | Inr jsonLd \<Rightarrow>
          (let lawyers = jsonLd;
               lawyers = (if lawyers = [] then firstNonEmpty (embeddedPerScript pg) else lawyers);
               lawyers = (if lawyers = [] then parsedLawyers pg else lawyers);
               (seen, scraped, unique) =
                  admitLoop_browser (maxLawyers cfg) lawyers (seenWebsites l, totalScraped l, []);
               l' = l\<lparr>seenWebsites := seen, totalScraped := scraped,
                      pagesProcessed := pagesProcessed l + 1,
                      dataset := dataset l @ enrichAll cfg enrich unique\<rparr>
           in Returns (l', enqueueNext cfg l' (reqUrl req) (nextLink pg))))"

subsection \<open>The crawler that drives a handler\<close>

text \<open>
  Crawlee is a library outside the repository. The driver keeps of it what the handlers rely
  on: requests are taken from a queue one at a time; \<open>maxRequestsPerCrawl\<close> (set to \<open>maxPages\<close>
  when that is positive) bounds the requests handled; a request whose handler throws is queued
  again with \<open>retryCount\<close> one higher, up to \<open>maxRequestRetries\<close>, the counters and the
  ledger staying as the handler left them; \<open>addRequests\<close> ignores a
  \<open>uniqueKey\<close> the queue has seen. \<open>site i u\<close> is the page the \<open>i\<close>-th fetch of the run gets
  for URL \<open>u\<close>; \<open>fetched\<close> lists the URLs fetched so far.
\<close>

record crawl =
  queue :: "request list"
  knownKeys :: "string set"
  handledCount :: nat
  led :: ledger
  fetched :: "string list"

definition addRequests :: "string list \<Rightarrow> crawl \<Rightarrow> crawl" where
  "addRequests urls c =
     c\<lparr>queue := queue c @ map (\<lambda>u. \<lparr>reqUrl = u, retryCount = 0\<rparr>) (filter (\<lambda>u. u \<notin> knownKeys c) urls),
       knownKeys := knownKeys c \<union> set urls\<rparr>"

definition crawlStep ::
  "nat \<Rightarrow> config \<Rightarrow> (ledger \<Rightarrow> request \<Rightarrow> 'p \<Rightarrow> (ledger \<times> string list) outcome)
     \<Rightarrow> (nat \<Rightarrow> string \<Rightarrow> 'p) \<Rightarrow> crawl \<Rightarrow> crawl" where
  "crawlStep maxRequestRetries cfg handler site c =
     (case queue c of
        [] \<Rightarrow> c
      | req # rest \<Rightarrow>
          if maxPages cfg > 0 \<and> handledCount c \<ge> maxPages cfg then c\<lparr>queue := []\<rparr>
          else
            (let pg = site (length (fetched c)) (reqUrl req);
                 c1 = c\<lparr>queue := rest, fetched := fetched c @ [reqUrl req]\<rparr>
             in case handler (led c) req pg of
                  Throws l' \<Rightarrow>
                    if retryCount req < maxRequestRetries
                    then c1\<lparr>queue := rest @ [req\<lparr>retryCount := retryCount req + 1\<rparr>], led := l'\<rparr>
                    else c1\<lparr>led := l', handledCount := handledCount c + 1\<rparr>
                | Returns (l', urls) \<Rightarrow>
                    addRequests urls (c1\<lparr>led := l', handledCount := handledCount c + 1\<rparr>)))"

fun crawlFor ::
  "nat \<Rightarrow> nat \<Rightarrow> config \<Rightarrow> (ledger \<Rightarrow> request \<Rightarrow> 'p \<Rightarrow> (ledger \<times> string list) outcome)
     \<Rightarrow> (nat \<Rightarrow> string \<Rightarrow> 'p) \<Rightarrow> crawl \<Rightarrow> crawl" where
  "crawlFor 0 maxRequestRetries cfg handler site c = c"
| "crawlFor (Suc k) maxRequestRetries cfg handler site c =
     crawlFor k maxRequestRetries cfg handler site (crawlStep maxRequestRetries cfg handler site c)"

definition startCrawl :: "string \<Rightarrow> crawl" where
  "startCrawl searchUrl =
     \<lparr>queue = [\<lparr>reqUrl = searchUrl, retryCount = 0\<rparr>], knownKeys = {searchUrl}, handledCount = 0,
      led = \<lparr>seenWebsites = {}, totalScraped = 0, pagesProcessed = 0, dataset = []\<rparr>,
      fetched = []\<rparr>"

section \<open>Sample records\<close>

text \<open>
  A record with the given name, location, firm and profile URL, its other fields as the HTML
  extractor leaves them when a card holds nothing else.
\<close>

definition sampleLawyer :: "string \<Rightarrow> string \<Rightarrow> string \<Rightarrow> string \<Rightarrow> jsv lawyer" where
  "sampleLawyer nm loc firm web =
     \<lparr>name = JStr nm, firmName = JStr firm, location = JStr loc, address = JStr loc,
      phone = JStr [], email = JStr [], website = web, practiceAreas = JStr [],
      description = JStr [], yearsLicensed = JStr [], biography = JNull, education = JNull,
      barAdmissions = JNull, languages = JNull, scrapedAt = ''2024-01-01T00:00:00.000Z''\<rparr>"

definition annLee :: "jsv lawyer" where
  "annLee = sampleLawyer ''Ann Lee'' ''Reno, NV'' ''Lee Law'' []"

definition annLeeAgain :: "jsv lawyer" where
  "annLeeAgain = annLee\<lparr>phone := JStr ''555-0100''\<rparr>"

definition boRay :: "jsv lawyer" where
  "boRay = sampleLawyer ''Bo Ray'' ''Reno, NV'' ''Lee Law'' []"

definition caseyKim :: "jsv lawyer" where
  "caseyKim = sampleLawyer ''Casey Kim'' ''Elko, NV'' ''Kim LLP'' ''https://www.justia.com/lawyers/casey-kim-1''"

definition danaFox :: "jsv lawyer" where
  "danaFox = sampleLawyer ''Dana Fox'' ''Elko, NV'' ''Fox PC'' ''https://www.justia.com/lawyers/dana-fox-2''"

text \<open>Two records that differ in name and location and have the same composite key.\<close>

definition barA :: "jsv lawyer" where
  "barA = sampleLawyer ''Smith|Jones'' ''Reno'' ''Roe'' []"

definition barB :: "jsv lawyer" where
  "barB = sampleLawyer ''Smith'' ''Jones|Reno'' ''Roe'' []"

text \<open>
  A listing page whose JSON-LD block yields one record and whose HTML cards yield another; a
  configuration with no enrichment; the ledger at the start of a run.
\<close>

definition bothSourcesPage :: listing where
  "bothSourcesPage =
     \<lparr>responseStatus = Some 200, htmlSnapshot = ''<html>...</html>'', jsonLdLawyers = Inr [caseyKim],
      nextDataLawyers = Inr [], htmlLawyers = [danaFox], nextPageUrl = []\<rparr>"

definition plainConfig :: "nat \<Rightarrow> nat \<Rightarrow> config" where
  "plainConfig maxL maxP = \<lparr>maxLawyers = maxL, maxPages = maxP, fetchFullProfiles = False\<rparr>"

definition emptyLedger :: ledger where
  "emptyLedger = \<lparr>seenWebsites = {}, totalScraped = 0, pagesProcessed = 0, dataset = []\<rparr>"

text \<open>A listing page whose next-page link resolves to the page itself, and the same page rendered.\<close>

definition nevadaUrl :: string where
  "nevadaUrl = ''https://www.justia.com/lawyers/nevada''"

definition selfLinkPage :: listing where
  "selfLinkPage =
     \<lparr>responseStatus = Some 200, htmlSnapshot = ''<html>...</html>'', jsonLdLawyers = Inr [],
      nextDataLawyers = Inr [], htmlLawyers = [caseyKim], nextPageUrl = nevadaUrl\<rparr>"

definition selfLinkRendered :: rendered where
  "selfLinkRendered =
     \<lparr>ldPerScript = [], embeddedPerScript = [], parsedLawyers = [caseyKim], nextLink = nevadaUrl\<rparr>"

text \<open>
  A listing page whose JSON-LD block yields one record and whose HTML cards yield the same
  lawyer, read with a phone number, and another one.
\<close>

definition caseyKimCard :: "jsv lawyer" where
  "caseyKimCard = caseyKim\<lparr>phone := JStr ''555-0142''\<rparr>"

definition overlapPage :: listing where
  "overlapPage =
     \<lparr>responseStatus = Some 200, htmlSnapshot = ''<html>...</html>'', jsonLdLawyers = Inr [caseyKim],
      nextDataLawyers = Inr [], htmlLawyers = [caseyKimCard, danaFox], nextPageUrl = []\<rparr>"

section \<open>The run loop of the HTTP-first program (part 001)\<close>

datatype transport = Lightweight | Rendered

datatype purpose = Listing | ApiEndpoint | Profile

text \<open>
  One fetch of the run: the transport (\<open>gotScraping\<close> or the browser), what was fetched, the URL,
  and the verdict of the blocking detector where the program asks for one.
\<close>

datatype fetchEvent = Fetched transport purpose string "bool option"

datatype phase = HttpLoop | BrowserFallback | Finished | Failed

text \<open>
  What \<open>fetchProfileDetails\<close> reads off a profile page with its selectors, after trimming.
\<close>

record rawDetails =
  rawEmail :: string
  rawBiography :: string
  rawEducation :: "string list"
  rawBarAdmissions :: "string list"
  rawLanguages :: "string list"

text \<open>
  The collaborators of the run. \<open>fetchHttp i u\<close> is the response the \<open>i\<close>-th fetch of the run
  gets for \<open>u\<close> (\<open>None\<close>: \<open>gotScraping\<close> throws); \<open>browse i u\<close> is the page content the browser
  gets. The others stand for functions of a page body and its URL:
  \<open>tryExtractApiUrlFromHtml\<close>, \<open>safeJsonParse\<close> followed by \<open>extractLawyersFromJsonObject\<close>,
  \<open>extractListingViaEmbeddedJson\<close>, \<open>extractListingViaHtml\<close>, \<open>findNextPageUrl\<close> and the
  selectors of \<open>fetchProfileDetails\<close>.
\<close>

record httpEnv =
  fetchHttp :: "nat \<Rightarrow> string \<Rightarrow> fetchResult option"
  browse :: "nat \<Rightarrow> string \<Rightarrow> string"
  apiUrlOf :: "string \<Rightarrow> string \<Rightarrow> string"
  lawyersOfJson :: "string \<Rightarrow> string \<Rightarrow> jsv lawyer list"
  embeddedJsonOf :: "string \<Rightarrow> string \<Rightarrow> jsv lawyer list"
  listingOf :: "string \<Rightarrow> string \<Rightarrow> jsv lawyer list"
  nextOf :: "string \<Rightarrow> string \<Rightarrow> string"
  profileOf :: "string \<Rightarrow> rawDetails"

text \<open>
  The state of a run: the ledger and counters, the loop variable \<open>nextUrl\<close>, the fetches made
  so far, and the state of \<open>runBrowserFallback\<close> (its own \<open>seen\<close> set in insertion order, the
  crawler's queue and known keys, the requests handled, and its two limits).
\<close>

record httpRun = ledger +
  phase :: phase
  nextUrl :: string
  fetchLog :: "fetchEvent list"
  fbSeen :: "string list"
  fbQueue :: "string list"
  fbKnown :: "string set"
  fbHandled :: nat
  fbMaxLawyers :: nat
  fbMaxRequests :: nat

definition httpGet ::
  "httpEnv \<Rightarrow> fetchEvent list \<Rightarrow> purpose \<Rightarrow> string \<Rightarrow> (fetchResult \<Rightarrow> bool option)
     \<Rightarrow> fetchEvent list \<times> fetchResult option" where
  "httpGet env lg what u classify =
     (case fetchHttp env (length lg) u of
        None \<Rightarrow> (lg @ [Fetched Lightweight what u None], None)
      | Some r \<Rightarrow> (lg @ [Fetched Lightweight what u (classify r)], Some r))"

text \<open>
  \<^verbatim>\<open>const apiUrl = tryExtractApiUrlFromHtml(html, pageUrl);
  if (!apiUrl) return { lawyers: [], apiUrlTried: '' };
  const r = await fetchHttp(apiUrl, ...);
  const data = safeJsonParse(r.body);
  if (!data) return { lawyers: [], apiUrlTried: apiUrl };
  const lawyers = extractLawyersFromJsonObject(data, pageUrl);\<close>
\<close>

definition extractListingViaJsonApi ::
  "httpEnv \<Rightarrow> fetchEvent list \<Rightarrow> fetchResult \<Rightarrow> fetchEvent list \<times> jsv lawyer list option" where
  "extractListingViaJsonApi env lg r =
     (let apiUrl = apiUrlOf env (body r) (url r) in
      if apiUrl = [] then (lg, Some [])
      else case httpGet env lg ApiEndpoint apiUrl (\<lambda>ra. None) of
             (lg', None) \<Rightarrow> (lg', None)
           | (lg', Some ra) \<Rightarrow> (lg', Some (lawyersOfJson env (body ra) (url r))))"

text \<open>
  \<open>fetchProfileDetails\<close> returns \<open>null\<close> on a status other than 200, \<open>{ blocked: true }\<close> on a
  challenge page, and otherwise the details, each \<open>null\<close> when empty.
\<close>

datatype profileDetails = DetailsNull | DetailsBlocked | Details jsv jsv jsv jsv jsv

definition strings :: "string list \<Rightarrow> jsv" where
  "strings ss = (if ss = [] then JNull else JArr (map JStr ss))"

definition detailsOfRaw :: "rawDetails \<Rightarrow> profileDetails" where
  "detailsOfRaw d =
     Details (if rawEmail d = [] then JNull else JStr (rawEmail d))
             (if rawBiography d = [] then JNull else JStr (rawBiography d))
             (strings (rawEducation d)) (strings (rawBarAdmissions d)) (strings (rawLanguages d))"

text \<open>\<open>a ?? b\<close>\<close>

definition nullish :: "jsv \<Rightarrow> jsv \<Rightarrow> jsv" where
  "nullish a b = (if a = JNull \<or> a = JUndefined then b else a)"

text \<open>
  \<^verbatim>\<open>if (details?.blocked) { enriched.push(base); continue; }
  enriched.push({ ...base,
    email: details?.email ?? base.email, biography: details?.biography ?? base.biography,
    education: details?.education ?? base.education,
    barAdmissions: details?.barAdmissions ?? base.barAdmissions,
    languages: details?.languages ?? base.languages });\<close>
\<close>

fun mergeDetails :: "jsv lawyer \<Rightarrow> profileDetails \<Rightarrow> jsv lawyer" where
  "mergeDetails base DetailsBlocked = base"
| "mergeDetails base DetailsNull = base"
| "mergeDetails base (Details em bio edu bar lang) =
     base\<lparr>email := nullish em (email base), biography := nullish bio (biography base),
          education := nullish edu (education base),
          barAdmissions := nullish bar (barAdmissions base),
          languages := nullish lang (languages base)\<rparr>"

definition profileVerdict :: "fetchResult \<Rightarrow> bool option" where
  "profileVerdict r = (if statusCode r \<noteq> 200 then None else Some (isBlockedHtml (body r)))"

definition fetchProfileDetails :: "httpEnv \<Rightarrow> fetchResult \<Rightarrow> profileDetails" where
  "fetchProfileDetails env r =
     (if statusCode r \<noteq> 200 then DetailsNull
      else if isBlockedHtml (body r) then DetailsBlocked
      else detailsOfRaw (profileOf env (body r)))"

text \<open>The enrichment loop (lines 607-628); a fetch that throws ends the run.\<close>

fun enrichLoop ::
  "httpEnv \<Rightarrow> jsv lawyer list \<Rightarrow> fetchEvent list \<Rightarrow> jsv lawyer list
     \<Rightarrow> fetchEvent list \<times> jsv lawyer list option" where
  "enrichLoop env [] lg enriched = (lg, Some enriched)"
| "enrichLoop env (base # rest) lg enriched =
     (case httpGet env lg Profile (website base) profileVerdict of
        (lg', None) \<Rightarrow> (lg', None)
      | (lg', Some r) \<Rightarrow>
          enrichLoop env rest lg' (enriched @ [mergeDetails base (fetchProfileDetails env r)]))"

text \<open>Saving a page's records (lines 594-640).\<close>

definition saveResults :: "httpEnv \<Rightarrow> config \<Rightarrow> jsv lawyer list \<Rightarrow> httpRun \<Rightarrow> httpRun" where
  "saveResults env cfg lawyers s =
     (if lawyers = [] then s
      else
        (let (seen, unique) =
               uniqueLoop (maxLawyers cfg)
                 (remainingOf (maxLawyers cfg) (totalScraped s) lawyers) lawyers (seenWebsites s, []);
             s = s\<lparr>seenWebsites := seen\<rparr>
         in if fetchFullProfiles cfg \<and> unique \<noteq> [] then
              (case enrichLoop env unique (fetchLog s) [] of
                 (lg, None) \<Rightarrow> s\<lparr>fetchLog := lg, phase := Failed\<rparr>
               | (lg, Some enriched) \<Rightarrow>
                   s\<lparr>fetchLog := lg, dataset := dataset s @ enriched,
                      totalScraped := totalScraped s + length enriched\<rparr>)
            else s\<lparr>dataset := dataset s @ unique, totalScraped := totalScraped s + length unique\<rparr>))"

text \<open>
  The switch to the browser (lines 543-553): \<open>runBrowserFallback\<close> starts a crawler on the URL
  that was just fetched, with what is left of the budgets, and the loop is left for good.
  \<^verbatim>\<open>await runBrowserFallback({ startUrl: nextUrl, proxyConfiguration,
    maxLawyers: maxLawyers > 0 ? Math.max(0, maxLawyers - totalScraped) : 0,
    maxPages: maxPages > 0 ? Math.max(0, maxPages - pagesProcessed) : 0 });
  break;
  ...
  maxRequestsPerCrawl: Math.min(20, Math.max(1, maxPages || 5)),\<close>
\<close>

definition startFallback :: "config \<Rightarrow> httpRun \<Rightarrow> httpRun" where
  "startFallback cfg s =
     (let pagesLeft = (if maxPages cfg > 0 then maxPages cfg - pagesProcessed s else 0) in
      s\<lparr>phase := BrowserFallback, fbSeen := [], fbQueue := [nextUrl s], fbKnown := {nextUrl s},
        fbHandled := 0,
        fbMaxLawyers := (if maxLawyers cfg > 0 then maxLawyers cfg - totalScraped s else 0),
        fbMaxRequests := min 20 (max 1 (if pagesLeft = 0 then 5 else pagesLeft))\<rparr>)"

text \<open>One iteration of the \<open>while (nextUrl)\<close> loop (lines 530-657).\<close>

definition httpIteration :: "httpEnv \<Rightarrow> config \<Rightarrow> httpRun \<Rightarrow> httpRun" where
  "httpIteration env cfg s0 =
     (if nextUrl s0 = [] then s0\<lparr>phase := Finished\<rparr>
      else if maxPages cfg > 0 \<and> pagesProcessed s0 \<ge> maxPages cfg then s0\<lparr>phase := Finished\<rparr>
      else if maxLawyers cfg > 0 \<and> totalScraped s0 \<ge> maxLawyers cfg then s0\<lparr>phase := Finished\<rparr>
      else
        (let s = s0\<lparr>pagesProcessed := pagesProcessed s0 + 1\<rparr> in
         case httpGet env (fetchLog s) Listing (nextUrl s) (\<lambda>r. Some (blocked r)) of
           (lg, None) \<Rightarrow> s\<lparr>fetchLog := lg, phase := Failed\<rparr>
         | (lg, Some r) \<Rightarrow>
             if blocked r then startFallback cfg (s\<lparr>fetchLog := lg\<rparr>)
             else
               (case extractListingViaJsonApi env lg r of
                  (lg', None) \<Rightarrow> s\<lparr>fetchLog := lg', phase := Failed\<rparr>
                | (lg', Some viaApi) \<Rightarrow>
                    (let lawyers = cascadeHttp (blocked r) viaApi
                                     (embeddedJsonOf env (body r) (url r))
                                     (listingOf env (body r) (url r));
                         s = saveResults env cfg lawyers (s\<lparr>fetchLog := lg'\<rparr>)
                     in if phase s = Failed then s
                        else if maxLawyers cfg > 0 \<and> totalScraped s \<ge> maxLawyers cfg
                          then s\<lparr>phase := Finished\<rparr>
                        else
                          (let next = nextOf env (body r) (url r) in
                           if next = [] then s\<lparr>nextUrl := [], phase := Finished\<rparr>
                           else s\<lparr>nextUrl := next\<rparr>)))))"

text \<open>
  The handler of the fallback crawler (lines 438-484), with the crawler around it: one request
  is taken from the queue, at most \<open>maxRequestsPerCrawl\<close> are handled, and \<open>addRequests\<close>
  ignores a key it has seen. When the queue is empty the crawl and with it the run is over.
  \<^verbatim>\<open>lawyers = extractListingViaEmbeddedJson({ html, pageUrl: request.url });
  if (!lawyers.length) lawyers = extractListingViaHtml({ html, pageUrl: request.url });
  const filtered = lawyers.filter((l) => {
    if (!l.website) return false;
    if (seen.has(l.website)) return false;
    seen.add(l.website); return true; });
  const slice = maxLawyers > 0
    ? filtered.slice(0, Math.max(0, maxLawyers - seen.size + filtered.length)) : filtered;
  if (slice.length) await Actor.pushData(slice);
  if (maxLawyers > 0 && seen.size >= maxLawyers) return;
  const next = findNextPageUrl({ html, pageUrl: request.url });
  if (next) await selfCrawler.addRequests([{ url: next, uniqueKey: next }]);\<close>
\<close>

fun filterSeen :: "jsv lawyer list \<Rightarrow> string list \<times> jsv lawyer list \<Rightarrow> string list \<times> jsv lawyer list" where
  "filterSeen [] st = st"
| "filterSeen (l # ls) (seen, filtered) =
     (if website l = [] then filterSeen ls (seen, filtered)
      else if website l \<in> set seen then filterSeen ls (seen, filtered)
      else filterSeen ls (seen @ [website l], filtered @ [l]))"

definition fallbackStep :: "httpEnv \<Rightarrow> httpRun \<Rightarrow> httpRun" where
  "fallbackStep env s =
     (case fbQueue s of
        [] \<Rightarrow> s\<lparr>phase := Finished\<rparr>
      | u # rest \<Rightarrow>
          if fbHandled s \<ge> fbMaxRequests s then s\<lparr>fbQueue := [], phase := Finished\<rparr>
          else
            (let html = browse env (length (fetchLog s)) u;
                 lawyers = embeddedJsonOf env html u;
                 lawyers = (if lawyers = [] then listingOf env html u else lawyers);
                 (seen, filtered) = filterSeen lawyers (fbSeen s, []);
                 slice = (if fbMaxLawyers s > 0
                          then take (fbMaxLawyers s + length filtered - length seen) filtered
                          else filtered);
                 next = nextOf env html u;
                 added = (if fbMaxLawyers s > 0 \<and> length seen \<ge> fbMaxLawyers s then []
                          else if next \<noteq> [] then [next] else []);
                 newQueue = rest @ filter (\<lambda>n. n \<notin> fbKnown s) added
             in s\<lparr>fetchLog := fetchLog s @ [Fetched Rendered Listing u None],
                  fbSeen := seen, dataset := dataset s @ slice, fbHandled := fbHandled s + 1,
                  fbQueue := newQueue, fbKnown := fbKnown s \<union> set added,
                  phase := (if newQueue = [] then Finished else BrowserFallback)\<rparr>))"

definition httpStep :: "httpEnv \<Rightarrow> config \<Rightarrow> httpRun \<Rightarrow> httpRun" where
  "httpStep env cfg s =
     (case phase s of
        HttpLoop \<Rightarrow> httpIteration env cfg s
      | BrowserFallback \<Rightarrow> fallbackStep env s
      | Finished \<Rightarrow> s
      | Failed \<Rightarrow> s)"

fun runFor :: "nat \<Rightarrow> httpEnv \<Rightarrow> config \<Rightarrow> httpRun \<Rightarrow> httpRun" where
  "runFor 0 env cfg s = s"
| "runFor (Suc k) env cfg s = runFor k env cfg (httpStep env cfg s)"

definition startRun :: "string \<Rightarrow> httpRun" where
  "startRun searchUrl =
     \<lparr>seenWebsites = {}, totalScraped = 0, pagesProcessed = 0, dataset = [],
      phase = HttpLoop, nextUrl = searchUrl, fetchLog = [], fbSeen = [], fbQueue = [],
      fbKnown = {}, fbHandled = 0, fbMaxLawyers = 0, fbMaxRequests = 0\<rparr>"

section \<open>A sample site\<close>

text \<open>
  Three listing pages holding 9, 9 and 7 distinct records, each page linking to the next.
\<close>

definition numbered :: "nat \<Rightarrow> jsv lawyer" where
  "numbered i =
     sampleLawyer (''L'' @ showNat i) ''Reno'' ''Firm''
       (''/l'' @ showNat i)"

definition pageTwoUrl :: string where
  "pageTwoUrl = nevadaUrl @ ''?page=2''"

definition pageThreeUrl :: string where
  "pageThreeUrl = nevadaUrl @ ''?page=3''"

definition cardsOn :: "string \<Rightarrow> jsv lawyer list" where
  "cardsOn u =
     (if u = nevadaUrl then map numbered [0..<9]
      else if u = pageTwoUrl then map numbered [9..<18]
      else if u = pageThreeUrl then map numbered [18..<25]
      else [])"

definition linkOn :: "string \<Rightarrow> string" where
  "linkOn u =
     (if u = nevadaUrl then pageTwoUrl else if u = pageTwoUrl then pageThreeUrl else [])"


text \<open>The same site for the HTTP-first program: the body of a page is its URL.\<close>

definition noDetails :: rawDetails where
  "noDetails = \<lparr>rawEmail = [], rawBiography = [], rawEducation = [], rawBarAdmissions = [],
      rawLanguages = []\<rparr>"

definition threePagesEnv :: httpEnv where
  "threePagesEnv =
     \<lparr>fetchHttp = (\<lambda>i u. Some \<lparr>url = u, statusCode = 200, body = u\<rparr>),
      browse = (\<lambda>i u. u),
      apiUrlOf = (\<lambda>html pageUrl. []),
      lawyersOfJson = (\<lambda>text pageUrl. []),
      embeddedJsonOf = (\<lambda>html pageUrl. []),
      listingOf = (\<lambda>html pageUrl. cardsOn html),
      nextOf = (\<lambda>html pageUrl. linkOn html),
      profileOf = (\<lambda>html. noDetails)\<rparr>"




text \<open>What a run of the HTTP-first program shows: the records stored, the fetches, the phase.\<close>

definition runSummary :: "httpRun \<Rightarrow> jsv lawyer list \<times> fetchEvent list \<times> phase" where
  "runSummary s = (dataset s, fetchLog s, phase s)"

section \<open>Reading the fetch log\<close>

fun transportOf :: "fetchEvent \<Rightarrow> transport" where
  "transportOf (Fetched t p u v) = t"

text \<open>A listing-page fetch that the run loop classified as blocked.\<close>

fun blockedListing :: "fetchEvent \<Rightarrow> bool" where
  "blockedListing (Fetched t p u v) = (p = Listing \<and> v = Some True)"

text \<open>Fetches made before any escalation: lightweight, and no listing page found blocked.\<close>

definition calm :: "fetchEvent list \<Rightarrow> bool" where
  "calm evs = list_all (\<lambda>e. transportOf e = Lightweight \<and> \<not> blockedListing e) evs"

definition renderedOnly :: "fetchEvent list \<Rightarrow> bool" where
  "renderedOnly evs = list_all (\<lambda>e. transportOf e = Rendered) evs"

section \<open>Sample sites that block\<close>

text \<open>
  A site that answers every lightweight fetch with status 403, and serves two listing pages to
  the browser.
\<close>

definition blockingEnv :: httpEnv where
  "blockingEnv =
     \<lparr>fetchHttp = (\<lambda>i u. Some \<lparr>url = u, statusCode = 403, body = ''Access denied''\<rparr>),
      browse = (\<lambda>i u. u),
      apiUrlOf = (\<lambda>html pageUrl. []),
      lawyersOfJson = (\<lambda>text pageUrl. []),
      embeddedJsonOf = (\<lambda>html pageUrl. []),
      listingOf = (\<lambda>html pageUrl. if html = ''/p1'' then [caseyKim] else [danaFox]),
      nextOf = (\<lambda>html pageUrl. if html = ''/p1'' then ''/p2'' else []),
      profileOf = (\<lambda>html. noDetails)\<rparr>"

text \<open>
  A site whose listing page is served, with two records, and whose first profile page is a
  challenge page with status 200.
\<close>

definition challengedProfileEnv :: httpEnv where
  "challengedProfileEnv =
     \<lparr>fetchHttp = (\<lambda>i u. Some \<lparr>url = u, statusCode = 200,
                       body = (if u = website caseyKim then ''Just a moment...'' else u)\<rparr>),
      browse = (\<lambda>i u. u),
      apiUrlOf = (\<lambda>html pageUrl. []),
      lawyersOfJson = (\<lambda>text pageUrl. []),
      embeddedJsonOf = (\<lambda>html pageUrl. []),
      listingOf = (\<lambda>html pageUrl. if html = ''/p1'' then [caseyKim, danaFox] else []),
      nextOf = (\<lambda>html pageUrl. []),
      profileOf = (\<lambda>html. noDetails)\<rparr>"

definition enrichingConfig :: config where
  "enrichingConfig = \<lparr>maxLawyers = 0, maxPages = 0, fetchFullProfiles = True\<rparr>"

text \<open>
  A listing page that the CheerioCrawler program receives with status 403, and on which the
  HTML extractor finds one card.
\<close>

definition forbiddenPage :: listing where
  "forbiddenPage =
     \<lparr>responseStatus = Some 403, htmlSnapshot = ''Forbidden'', jsonLdLawyers = Inr [],
      nextDataLawyers = Inr [], htmlLawyers = [caseyKim], nextPageUrl = []\<rparr>"

text \<open>
  A site whose first listing page is served to the lightweight client, with one record and a
  link to the second page; the second page is answered with status 403 and, in the browser,
  lists that record again and another one.
\<close>

definition revisitEnv :: httpEnv where
  "revisitEnv =
     \<lparr>fetchHttp = (\<lambda>i u. if u = ''/p1'' then Some \<lparr>url = u, statusCode = 200, body = u\<rparr>
                    else Some \<lparr>url = u, statusCode = 403, body = ''Access denied''\<rparr>),
      browse = (\<lambda>i u. u),
      apiUrlOf = (\<lambda>html pageUrl. []),
      lawyersOfJson = (\<lambda>text pageUrl. []),
      embeddedJsonOf = (\<lambda>html pageUrl. []),
      listingOf = (\<lambda>html pageUrl. if html = ''/p1'' then [caseyKim] else [caseyKim, danaFox]),
      nextOf = (\<lambda>html pageUrl. if html = ''/p1'' then ''/p2'' else []),
      profileOf = (\<lambda>html. noDetails)\<rparr>"

section \<open>Reading JavaScript values\<close>

definition isStr :: "jsv \<Rightarrow> bool" where
  "isStr v = (case v of JStr s \<Rightarrow> True | _ \<Rightarrow> False)"

definition isArr :: "jsv \<Rightarrow> bool" where
  "isArr v = (case v of JArr xs \<Rightarrow> True | _ \<Rightarrow> False)"

text \<open>\<open>typeof v === 'object'\<close> for a truthy \<open>v\<close>: an array or an object.\<close>

definition isObjectType :: "jsv \<Rightarrow> bool" where
  "isObjectType v = (case v of JArr xs \<Rightarrow> True | JObj kvs \<Rightarrow> True | _ \<Rightarrow> False)"

definition lookupKey :: "(string \<times> jsv) list \<Rightarrow> string \<Rightarrow> jsv" where
  "lookupKey kvs k = (case map_of kvs k of Some v \<Rightarrow> v | None \<Rightarrow> JUndefined)"

text \<open>
  Property access \<open>x.k\<close>: a \<open>TypeError\<close> on \<open>null\<close> and \<open>undefined\<close>, the property of an object,
  and \<open>undefined\<close> on every other value (none of the names the extractors read is a built-in
  property of a string, a number, a boolean or an array). \<open>x?.k\<close> is \<open>undefined\<close> where \<open>x.k\<close>
  would throw.
\<close>

fun member :: "jsv \<Rightarrow> string \<Rightarrow> jsError + jsv" where
  "member JUndefined k = Inl TypeError"
| "member JNull k = Inl TypeError"
| "member (JObj kvs) k = Inr (lookupKey kvs k)"
| "member v k = Inr JUndefined"

fun propOf :: "jsv \<Rightarrow> string \<Rightarrow> jsv" where
  "propOf (JObj kvs) k = lookupKey kvs k"
| "propOf v k = JUndefined"

text \<open>
  \<open>for (const x of v)\<close>: the elements of an array, the characters of a string, a \<open>TypeError\<close>
  on anything else.
\<close>

fun iterate :: "jsv \<Rightarrow> jsError + jsv list" where
  "iterate (JArr xs) = Inr xs"
| "iterate (JStr s) = Inr (map (\<lambda>c. JStr [c]) s)"
| "iterate v = Inl TypeError"

text \<open>
  \<open>v.includes(s)\<close>: the substring test on a string, membership on an array, and a \<open>TypeError\<close>
  (\<open>v.includes is not a function\<close>) on a number, a boolean or an object.
\<close>

fun includesCall :: "jsv \<Rightarrow> string \<Rightarrow> jsError + bool" where
  "includesCall (JStr t) s = Inr (str_includes t s)"
| "includesCall (JArr xs) s = Inr (JStr s \<in> set xs)"
| "includesCall v s = Inl TypeError"

text \<open>The results of a loop body per element, in order: the first exception ends the loop.\<close>

fun collect :: "(jsError + 'a list) list \<Rightarrow> jsError + 'a list" where
  "collect [] = Inr []"
| "collect (Inl err # rest) = Inl err"
| "collect (Inr xs # rest) = (case collect rest of Inl err \<Rightarrow> Inl err | Inr ys \<Rightarrow> Inr (xs @ ys))"

text \<open>
  \<open>s.trim()\<close> removes white space and line terminators at both ends; among the characters up
  to U+00FF these are tab, line feed, vertical tab, form feed, carriage return, space and the
  no-break space U+00A0.
\<close>

definition isSpace :: "char \<Rightarrow> bool" where
  "isSpace c = (c \<in> set [CHR '' '', CHR 0x09, CHR 0x0A, CHR 0x0B, CHR 0x0C, CHR 0x0D, CHR 0xA0])"

definition trim :: "string \<Rightarrow> string" where
  "trim s = rev (dropWhile isSpace (rev (dropWhile isSpace s)))"

fun splitOn :: "char \<Rightarrow> string \<Rightarrow> string list" where
  "splitOn sep [] = [[]]"
| "splitOn sep (c # cs) =
     (if c = sep then [] # splitOn sep cs
      else (case splitOn sep cs of [] \<Rightarrow> [[c]] | p # ps \<Rightarrow> (c # p) # ps))"

section \<open>Absolute URLs\<close>

text \<open>
  \<^verbatim>\<open>function absoluteUrl(maybeRelativeUrl, baseUrl) {
    if (!maybeRelativeUrl) return '';
    try { return new URL(maybeRelativeUrl, baseUrl || JUSTIA_BASE).toString(); }
    catch { return ''; } }\<close>
  \<open>resolve rel base\<close> stands for \<open>new URL(rel, base).toString()\<close> on strings, \<open>None\<close> when the
  constructor throws. The constructor first converts its argument to a string, inside the
  \<open>try\<close>.
\<close>

definition JUSTIA_BASE :: string where
  "JUSTIA_BASE = ''https://www.justia.com''"

definition absoluteUrl :: "(string \<Rightarrow> string \<Rightarrow> string option) \<Rightarrow> jsv \<Rightarrow> string \<Rightarrow> string" where
  "absoluteUrl resolve maybeRelativeUrl baseUrl =
     (if \<not> truthy maybeRelativeUrl then []
      else case toStr maybeRelativeUrl of
        Inl err \<Rightarrow> []
      | Inr rel \<Rightarrow>
          (case resolve rel (if baseUrl = [] then JUSTIA_BASE else baseUrl) of
             Some u \<Rightarrow> u
           | None \<Rightarrow> []))"

section \<open>The JSON-LD extractor (main.js, lines 181-281)\<close>

text \<open>\<open>Array.isArray(v) ? v.join(', ') : v\<close>\<close>

definition joinOrSelf :: "jsv \<Rightarrow> jsError + jsv" where
  "joinOrSelf v = (case v of JArr xs \<Rightarrow> arrayJoin '', '' xs | _ \<Rightarrow> Inr v)"

definition practiceAreasOf :: "jsv \<Rightarrow> jsError + jsv" where
  "practiceAreasOf item =
     (if truthy (propOf item ''knowsAbout'') then joinOrSelf (propOf item ''knowsAbout'')
      else if truthy (jsOr (propOf item ''areaServed'') (propOf item ''serviceArea''))
        then joinOrSelf (jsOr (propOf item ''areaServed'') (propOf item ''serviceArea''))
      else Inr (JStr []))"

definition locationOf :: "jsv \<Rightarrow> jsError + jsv" where
  "locationOf item =
     (let addr = propOf item ''address'' in
      if isStr addr then Inr addr
      else if truthy (propOf addr ''addressLocality'') \<or> truthy (propOf addr ''addressRegion'')
        then arrayJoin '', ''
               (filter truthy [propOf addr ''addressLocality'', propOf addr ''addressRegion''])
      else Inr (jsOr (propOf item ''location'') (JStr [])))"

definition languagesOf :: "jsv \<Rightarrow> jsv" where
  "languagesOf item =
     (case propOf item ''knowsLanguage'' of
        JArr xs \<Rightarrow> JArr xs
      | JStr s \<Rightarrow> JArr (map (\<lambda>p. JStr (trim p)) (splitOn (CHR '','') s))
      | _ \<Rightarrow> JNull)"

text \<open>
  \<^verbatim>\<open>const type = item['@type'] || '';
  const isLawyer = type.includes('Attorney') || type.includes('Lawyer') || type.includes('Person')
      || type.includes('LegalService') || type.includes('Organization');\<close>
\<close>

fun anyIncludes :: "jsv \<Rightarrow> string list \<Rightarrow> jsError + bool" where
  "anyIncludes ty [] = Inr False"
| "anyIncludes ty (s # ss) =
     (case includesCall ty s of
        Inl err \<Rightarrow> Inl err
      | Inr found \<Rightarrow> if found then Inr True else anyIncludes ty ss)"

definition isLawyerType :: "jsv \<Rightarrow> jsError + bool" where
  "isLawyerType item =
     anyIncludes (jsOr (propOf item ''@type'') (JStr []))
       [''Attorney'', ''Lawyer'', ''Person'', ''LegalService'', ''Organization'']"

text \<open>
  The record pushed for an entity with the truthy name \<open>nm\<close> (lines 217-266), given the
  practice areas and the location computed before it.
\<close>

definition entityRecord ::
  "(string \<Rightarrow> string \<Rightarrow> string option) \<Rightarrow> string \<Rightarrow> jsv \<Rightarrow> jsv \<Rightarrow> string \<Rightarrow> jsv \<Rightarrow> jsv
     \<Rightarrow> jsv lawyer" where
  "entityRecord resolve now item nm pageUrl areas loc =
     \<lparr>name = jsOr nm (JStr ''Unknown Name''),
      firmName = jsOr (propOf (propOf item ''worksFor'') ''name'')
                   (jsOr (propOf (propOf item ''affiliation'') ''name'')
                      (jsOr (propOf (propOf item ''memberOf'') ''name'') (JStr []))),
      location = loc,
      address = (if isStr (propOf item ''address'') then propOf item ''address''
                 else jsOr (propOf (propOf item ''address'') ''streetAddress'') loc),
      phone = jsOr (propOf item ''telephone'') (jsOr (propOf item ''phone'') (JStr [])),
      email = jsOr (propOf item ''email'') (JStr []),
      website = absoluteUrl resolve (jsOr (propOf item ''url'') (jsOr (propOf item ''@id'') (JStr []))) pageUrl,
      practiceAreas = areas,
      description = jsOr (propOf item ''description'') (JStr []),
      yearsLicensed = jsOr (propOf item ''yearsInPractice'') (JStr []),
      biography = JNull, education = JNull, barAdmissions = JNull,
      languages = languagesOf item, scrapedAt = now\<rparr>"

text \<open>
  An item that is not an \<open>ItemList\<close> (lines 203-266): skipped unless it has a lawyer-like type
  or a name, and skipped without a name.
\<close>

definition entityOf ::
  "(string \<Rightarrow> string \<Rightarrow> string option) \<Rightarrow> string \<Rightarrow> jsv \<Rightarrow> string \<Rightarrow> jsError + jsv lawyer list" where
  "entityOf resolve now item pageUrl =
     (case isLawyerType item of
        Inl err \<Rightarrow> Inl err
      | Inr isLawyer \<Rightarrow>
          if \<not> isLawyer \<and> \<not> truthy (propOf item ''name'') then Inr []
          else (let nm = jsOr (propOf item ''name'') (jsOr (propOf item ''givenName'') (JStr [])) in
                if \<not> truthy nm then Inr []
                else case practiceAreasOf item of
                  Inl err \<Rightarrow> Inl err
                | Inr areas \<Rightarrow>
                    (case locationOf item of
                       Inl err \<Rightarrow> Inl err
                     | Inr loc \<Rightarrow> Inr [entityRecord resolve now item nm pageUrl areas loc])))"

text \<open>\<open>const items = Array.isArray(data) ? data : data['@graph'] || [data];\<close> as the loop reads it.\<close>

definition itemsOf :: "jsv \<Rightarrow> jsError + jsv list" where
  "itemsOf data =
     (if isArr data then iterate data
      else case member data ''@graph'' of
             Inl err \<Rightarrow> Inl err
           | Inr graph \<Rightarrow> iterate (if truthy graph then graph else JArr [data]))"

definition listItemsOf :: "jsv \<Rightarrow> jsv list" where
  "listItemsOf item =
     (case propOf item ''itemListElement'' of JArr xs \<Rightarrow> xs | v \<Rightarrow> [v])"

definition isItemList :: "jsv \<Rightarrow> bool" where
  "isItemList item =
     (propOf item ''@type'' = JStr ''ItemList'' \<and> truthy (propOf item ''itemListElement''))"

text \<open>
  \<^verbatim>\<open>function extractLawyersFromJsonLd(data, pageUrl) {
    const results = [];
    const items = Array.isArray(data) ? data : data['@graph'] || [data];
    for (const item of items) {
        if (!item || typeof item !== 'object') continue;
        if (item['@type'] === 'ItemList' && item.itemListElement) {
            const listItems = Array.isArray(item.itemListElement) ? item.itemListElement : [item.itemListElement];
            for (const listItem of listItems) {
                const nestedItem = listItem.item || listItem;
                if (nestedItem) {
                    const extracted = extractLawyersFromJsonLd(nestedItem, pageUrl);
                    results.push(...extracted);
                }
            }
            continue;
        }
        const type = item['@type'] || '';
        const isLawyer = type.includes('Attorney') || ... ;
        if (!isLawyer && !item.name) continue;
        const name = item.name || item.givenName || '';
        if (!name) continue;
        ...
        results.push({ ... });
    }
    return results; }\<close>
  There is no \<open>try\<close> in the function: an exception of the loop body leaves it. \<open>now\<close> is the
  reading of the clock.
\<close>

function extractLawyersFromJsonLd ::
  "(string \<Rightarrow> string \<Rightarrow> string option) \<Rightarrow> string \<Rightarrow> jsv \<Rightarrow> string \<Rightarrow> jsError + jsv lawyer list" where
  "extractLawyersFromJsonLd resolve now data pageUrl =
     (case itemsOf data of
        Inl err \<Rightarrow> Inl err
      | Inr items \<Rightarrow>
          collect (map (\<lambda>item.
            if \<not> truthy item \<or> \<not> isObjectType item then Inr []
            else if isItemList item then
              collect (map (\<lambda>listItem.
                case member listItem ''item'' of
                  Inl err \<Rightarrow> Inl err
                | Inr it \<Rightarrow>
                    if truthy (jsOr it listItem)
                    then extractLawyersFromJsonLd resolve now (jsOr it listItem) pageUrl
                    else Inr []) (listItemsOf item))
            else entityOf resolve now item pageUrl) items))"
  by pat_completeness auto

lemma size_lookupKey: "size (lookupKey kvs k) \<le> size_list (size_prod (\<lambda>x. 0) size) kvs"
  by (induction kvs) (auto simp add: lookupKey_def)

lemma size_propOf: "truthy (propOf v k) \<Longrightarrow> size (propOf v k) < size v"
  using size_lookupKey [of _ k] by (cases v) (auto simp add: less_Suc_eq_le)

lemma size_member: "member v k = Inr w \<Longrightarrow> size w \<le> size v"
  using size_lookupKey [of _ k] by (cases v) (auto intro: le_SucI)

lemma size_jsOr: "size a \<le> n \<Longrightarrow> size b \<le> n \<Longrightarrow> size (jsOr a b) \<le> n"
  by (simp add: jsOr_def)

lemma size_element: "x \<in> set xs \<Longrightarrow> size (x :: jsv) < size (JArr xs)"
  using size_list_estimation' [of x xs "size x" size] by simp

lemma size_iterate: "iterate v = Inr xs \<Longrightarrow> x \<in> set xs \<Longrightarrow> size x \<le> size v"
  using size_element [of x] by (cases v) (auto simp add: less_imp_le)

lemma size_itemsOf:
  assumes "itemsOf data = Inr items" and "item \<in> set items"
  shows "size item \<le> size data"
proof (cases "isArr data")
  case True
  with assms show ?thesis by (simp add: itemsOf_def size_iterate)
next
  case False
  with assms obtain graph where g: "member data ''@graph'' = Inr graph"
    and it: "iterate (if truthy graph then graph else JArr [data]) = Inr items"
    by (auto simp add: itemsOf_def split: sum.splits)
  show ?thesis
  proof (cases "truthy graph")
    case True
    with it assms(2) have "size item \<le> size graph" by (simp add: size_iterate)
    with size_member [OF g] show ?thesis by simp
  next
    case False
    with it assms(2) show ?thesis by auto
  qed
qed

lemma size_listItemsOf:
  assumes "isItemList item" and "listItem \<in> set (listItemsOf item)"
  shows "size listItem < size item"
proof -
  from assms(1) have lt: "size (propOf item ''itemListElement'') < size item"
    by (simp add: isItemList_def size_propOf)
  show ?thesis
  proof (cases "propOf item ''itemListElement''")
    case (JArr xs)
    with assms(2) have "listItem \<in> set xs" by (simp add: listItemsOf_def)
    then have "size listItem < size (JArr xs)" by (rule size_element)
    with lt JArr show ?thesis by simp
  qed (use assms(2) lt in \<open>simp_all add: listItemsOf_def\<close>)
qed

termination extractLawyersFromJsonLd
proof (relation "measure (\<lambda>(resolve, now, data, pageUrl). size data)", goal_cases)
  case 1
  show ?case by simp
next
  case (2 resolve now data pageUrl items item listItem it)
  from 2(1,2) have a: "size item \<le> size data" by (rule size_itemsOf)
  from 2(4,5) have b: "size listItem < size item" by (rule size_listItemsOf)
  from 2(6) have "size it \<le> size listItem" by (rule size_member)
  then have "size (jsOr it listItem) \<le> size listItem" by (simp add: size_jsOr)
  with a b show ?case by simp
qed

text \<open>
  \<^verbatim>\<open>function extractLawyersFromJsonLdHtml({ html, pageUrl }) {
    const found = [];
    $('script[type="application/ld+json"]').each((_, el) => {
        const data = safeJsonParse($(el).contents().text());
        if (data) found.push(...extractLawyersFromJsonLd(data, pageUrl)); });
    return found; }\<close>
  \<open>scripts\<close> holds, per JSON-LD script of the page and in document order, what \<open>JSON.parse\<close>
  makes of its text; \<open>None\<close> where the text does not parse (\<open>safeJsonParse\<close> then gives \<open>null\<close>).
\<close>

definition extractLawyersFromJsonLdHtml ::
  "(string \<Rightarrow> string \<Rightarrow> string option) \<Rightarrow> string \<Rightarrow> jsv option list \<Rightarrow> string \<Rightarrow> jsError + jsv lawyer list" where
  "extractLawyersFromJsonLdHtml resolve now scripts pageUrl =
     collect (map (\<lambda>parsed.
        case parsed of
          None \<Rightarrow> Inr []
        | Some data \<Rightarrow> if truthy data then extractLawyersFromJsonLd resolve now data pageUrl else Inr [])
       scripts)"

section \<open>Sample JSON-LD payloads\<close>

text \<open>\<^verbatim>\<open>{"@type": 5, "name": "Ann Lee"}\<close>\<close>

definition typedByNumber :: jsv where
  "typedByNumber = JObj [(''@type'', JNum ''5''), (''name'', JStr ''Ann Lee'')]"

text \<open>\<^verbatim>\<open>{"@graph": 5}\<close> and \<^verbatim>\<open>{"@type": "ItemList", "itemListElement": [null]}\<close>\<close>

definition graphByNumber :: jsv where
  "graphByNumber = JObj [(''@graph'', JNum ''5'')]"

definition listOfNull :: jsv where
  "listOfNull = JObj [(''@type'', JStr ''ItemList''), (''itemListElement'', JArr [JNull])]"

text \<open>\<^verbatim>\<open>{"@type": "Attorney", "name": "Ann Lee", "telephone": "555-0100"}\<close>\<close>

definition attorneyEntity :: jsv where
  "attorneyEntity =
     JObj [(''@type'', JStr ''Attorney''), (''name'', JStr ''Ann Lee''), (''telephone'', JStr ''555-0100'')]"

text \<open>A listing page whose only JSON-LD script holds \<open>typedByNumber\<close>, next to one HTML card.\<close>

definition typedByNumberPage :: "(string \<Rightarrow> string \<Rightarrow> string option) \<Rightarrow> string \<Rightarrow> string \<Rightarrow> listing" where
  "typedByNumberPage resolve now pageUrl =
     \<lparr>responseStatus = Some 200, htmlSnapshot = ''<html>...</html>'',
      jsonLdLawyers = extractLawyersFromJsonLdHtml resolve now [Some typedByNumber] pageUrl,
      nextDataLawyers = Inr [], htmlLawyers = [danaFox], nextPageUrl = []\<rparr>"

section \<open>Profile enrichment (main.js, lines 480-587)\<close>

text \<open>\<open>s.replace(pat, '')\<close> with a string pattern: the first occurrence of \<open>pat\<close> is removed.\<close>

fun removeFirst :: "string \<Rightarrow> string \<Rightarrow> string" where
  "removeFirst pat [] = []"
| "removeFirst pat (c # cs) =
     (if prefix pat (c # cs) then drop (length pat) (c # cs) else c # removeFirst pat cs)"

text \<open>\<open>[...new Set(pieces)]\<close>: the first occurrence of every element, in order.\<close>

definition firstOccurrences :: "'a list \<Rightarrow> 'a list" where
  "firstOccurrences xs = rev (remdups (rev xs))"

text \<open>
  The regular expression \<^verbatim>\<open>/Licensed\\s+for\\s+(\\d+)\\s+years?/i\<close> of the source. Inside a
  regular expression literal \<^verbatim>\<open>\\\<close> is a backslash character, so \<^verbatim>\<open>\\s+\<close> is a backslash
  followed by one or more letters s, and the group \<^verbatim>\<open>(\\d+)\<close> is a backslash followed by one
  or more letters d. \<open>backslashRun c\<close> matches such a run at the head of a text and gives
  the matched characters and the rest; \<open>wordCI w\<close> matches the lower-case word \<open>w\<close> in
  any case. No two neighbouring pieces can match the same character, so the greedy match is
  the only one at a position; \<open>licensedMatch\<close> gives the group of the leftmost match.
\<close>

definition backslashRun :: "char \<Rightarrow> string \<Rightarrow> (string \<times> string) option" where
  "backslashRun c s =
     (case s of
        [] \<Rightarrow> None
      | x # rest \<Rightarrow>
          if x = CHR 0x5C \<and> takeWhile (\<lambda>y. lowerChar y = c) rest \<noteq> []
          then Some (x # takeWhile (\<lambda>y. lowerChar y = c) rest, dropWhile (\<lambda>y. lowerChar y = c) rest)
          else None)"

definition wordCI :: "string \<Rightarrow> string \<Rightarrow> string option" where
  "wordCI w s = (if toLowerCase (take (length w) s) = w then Some (drop (length w) s) else None)"

definition licensedAt :: "string \<Rightarrow> string option" where
  "licensedAt s =
     Option.bind (wordCI ''licensed'' s) (\<lambda>s1.
     Option.bind (backslashRun (CHR ''s'') s1) (\<lambda>(m2, s2).
     Option.bind (wordCI ''for'' s2) (\<lambda>s3.
     Option.bind (backslashRun (CHR ''s'') s3) (\<lambda>(m4, s4).
     Option.bind (backslashRun (CHR ''d'') s4) (\<lambda>(captured, s5).
     Option.bind (backslashRun (CHR ''s'') s5) (\<lambda>(m6, s6).
     Option.bind (wordCI ''year'' s6) (\<lambda>s7. Some captured)))))))"

fun licensedMatch :: "string \<Rightarrow> string option" where
  "licensedMatch [] = None"
| "licensedMatch (c # cs) =
     (case licensedAt (c # cs) of Some captured \<Rightarrow> Some captured | None \<Rightarrow> licensedMatch cs)"

text \<open>
  What the selectors of \<open>enrichProfileWithDetailsHttp\<close> read off the profile page, before
  trimming: the \<open>href\<close> of the first \<open>mailto:\<close> anchor (\<open>None\<close> when there is none), the text of
  the first element of each selection (empty when the selection is empty), the text of every
  element of the selections that are looped over, the text of \<open>body\<close>, and what \<open>JSON.parse\<close>
  makes of each JSON-LD script.
\<close>

record detailPage =
  mailtoHref :: "string option"
  emailText :: string
  biographyText :: string
  educationTexts :: "string list"
  admissionTexts :: "string list"
  languageTexts :: "string list"
  practiceTexts :: "string list"
  firmText :: string
  telText :: string
  telHref :: "string option"
  telephoneText :: string
  streetText :: string
  localityText :: string
  regionText :: string
  postalText :: string
  locationText :: string
  bodyText :: string
  ldScripts :: "jsv option list"

definition trimmedTexts :: "string list \<Rightarrow> string list" where
  "trimmedTexts texts = filter (\<lambda>t. t \<noteq> []) (map trim texts)"

text \<open>\<open>list.length ? list : rest\<close>\<close>

definition listOr :: "string list \<Rightarrow> jsv \<Rightarrow> jsv" where
  "listOr texts rest = (if texts \<noteq> [] then JArr (map JStr texts) else rest)"

text \<open>\<open>ld?.field\<close> for \<open>ld = ldLawyers[0]\<close>\<close>

definition ldField :: "(jsv lawyer \<Rightarrow> jsv) \<Rightarrow> jsv lawyer list \<Rightarrow> jsv" where
  "ldField field ldLawyers = (case ldLawyers of [] \<Rightarrow> JUndefined | ld # rest \<Rightarrow> field ld)"

text \<open>
  \<^verbatim>\<open>const firmName = $(...).first().text().trim() || baseData.firmName;
  const phone = $('a[href^="tel:"]').first().text().trim()
      || $('a[href^="tel:"]').first().attr('href')?.replace('tel:', '').trim()
      || $('[itemprop="telephone"]').first().text().trim() || baseData.phone;
  const address = addressParts.join(', ') || baseData.address;
  const location = $(...).first().text().trim() || [locality, region].filter(Boolean).join(', ')
      || baseData.location;
  ...
  const mergedPractice = practiceAreas || ld?.practiceAreas || baseData.practiceAreas;
  const mergedAddress = address || ld?.address || baseData.address;
  const mergedLocation = location || ld?.location || baseData.location;
  const mergedPhone = phone || ld?.phone || baseData.phone;
  const mergedEmail = email || ld?.email || baseData.email;
  const mergedFirm = firmName || ld?.firmName || baseData.firmName;
  const mergedDesc = biography || ld?.description || baseData.description;
  return { ...baseData, email: mergedEmail || baseData.email, phone: mergedPhone, ...,
      education: education.length ? education : ld?.education || baseData.education, ... };\<close>
  The values the selectors give, each as the source computes it:
\<close>

definition detailEmail :: "detailPage \<Rightarrow> jsv" where
  "detailEmail pg =
     jsOr (case mailtoHref pg of None \<Rightarrow> JUndefined | Some h \<Rightarrow> JStr (trim (removeFirst ''mailto:'' h)))
       (jsOr (JStr (trim (emailText pg))) JNull)"

definition detailBiography :: "detailPage \<Rightarrow> jsv" where
  "detailBiography pg = jsOr (JStr (trim (biographyText pg))) JNull"

definition detailPractice :: "detailPage \<Rightarrow> jsv" where
  "detailPractice pg =
     JStr (join '', '' (take 10 (firstOccurrences
       (filter (\<lambda>t. t \<noteq> [] \<and> 2 < length t \<and> length t < 100) (map trim (practiceTexts pg))))))"

definition detailFirm :: "detailPage \<Rightarrow> jsv lawyer \<Rightarrow> jsv" where
  "detailFirm pg baseData = jsOr (JStr (trim (firmText pg))) (firmName baseData)"

definition detailPhone :: "detailPage \<Rightarrow> jsv lawyer \<Rightarrow> jsv" where
  "detailPhone pg baseData =
     jsOr (JStr (trim (telText pg)))
       (jsOr (case telHref pg of None \<Rightarrow> JUndefined | Some h \<Rightarrow> JStr (trim (removeFirst ''tel:'' h)))
          (jsOr (JStr (trim (telephoneText pg))) (phone baseData)))"

definition detailAddress :: "detailPage \<Rightarrow> jsv lawyer \<Rightarrow> jsv" where
  "detailAddress pg baseData =
     jsOr (JStr (join '', '' (filter (\<lambda>t. t \<noteq> [])
             [trim (streetText pg), trim (localityText pg), trim (regionText pg), trim (postalText pg)])))
       (address baseData)"

definition detailLocation :: "detailPage \<Rightarrow> jsv lawyer \<Rightarrow> jsv" where
  "detailLocation pg baseData =
     jsOr (JStr (trim (locationText pg)))
       (jsOr (JStr (join '', '' (filter (\<lambda>t. t \<noteq> []) [trim (localityText pg), trim (regionText pg)])))
          (location baseData))"

definition detailYears :: "detailPage \<Rightarrow> jsv lawyer \<Rightarrow> jsv" where
  "detailYears pg baseData =
     (case licensedMatch (bodyText pg) of Some captured \<Rightarrow> JStr captured | None \<Rightarrow> yearsLicensed baseData)"

text \<open>The merged values (lines 556-562), \<open>ldLawyers\<close> being what the JSON-LD extractor returns.\<close>

definition mergedPractice :: "detailPage \<Rightarrow> jsv lawyer list \<Rightarrow> jsv lawyer \<Rightarrow> jsv" where
  "mergedPractice pg ldLawyers baseData =
     jsOr (detailPractice pg) (jsOr (ldField practiceAreas ldLawyers) (practiceAreas baseData))"

definition mergedAddress :: "detailPage \<Rightarrow> jsv lawyer list \<Rightarrow> jsv lawyer \<Rightarrow> jsv" where
  "mergedAddress pg ldLawyers baseData =
     jsOr (detailAddress pg baseData) (jsOr (ldField address ldLawyers) (address baseData))"

definition mergedLocation :: "detailPage \<Rightarrow> jsv lawyer list \<Rightarrow> jsv lawyer \<Rightarrow> jsv" where
  "mergedLocation pg ldLawyers baseData =
     jsOr (detailLocation pg baseData) (jsOr (ldField location ldLawyers) (location baseData))"

definition mergedPhone :: "detailPage \<Rightarrow> jsv lawyer list \<Rightarrow> jsv lawyer \<Rightarrow> jsv" where
  "mergedPhone pg ldLawyers baseData =
     jsOr (detailPhone pg baseData) (jsOr (ldField phone ldLawyers) (phone baseData))"

definition mergedEmail :: "detailPage \<Rightarrow> jsv lawyer list \<Rightarrow> jsv lawyer \<Rightarrow> jsv" where
  "mergedEmail pg ldLawyers baseData =
     jsOr (detailEmail pg) (jsOr (ldField email ldLawyers) (email baseData))"

definition mergedFirm :: "detailPage \<Rightarrow> jsv lawyer list \<Rightarrow> jsv lawyer \<Rightarrow> jsv" where
  "mergedFirm pg ldLawyers baseData =
     jsOr (detailFirm pg baseData) (jsOr (ldField firmName ldLawyers) (firmName baseData))"

definition mergedDesc :: "detailPage \<Rightarrow> jsv lawyer list \<Rightarrow> jsv lawyer \<Rightarrow> jsv" where
  "mergedDesc pg ldLawyers baseData =
     jsOr (detailBiography pg) (jsOr (ldField description ldLawyers) (description baseData))"

text \<open>The record returned (lines 564-578).\<close>

definition mergedRecord :: "detailPage \<Rightarrow> jsv lawyer list \<Rightarrow> jsv lawyer \<Rightarrow> jsv lawyer" where
  "mergedRecord pg ldLawyers baseData =
     baseData
       \<lparr>email := jsOr (mergedEmail pg ldLawyers baseData) (email baseData),
        phone := mergedPhone pg ldLawyers baseData,
        firmName := mergedFirm pg ldLawyers baseData,
        address := mergedAddress pg ldLawyers baseData,
        location := mergedLocation pg ldLawyers baseData,
        practiceAreas := mergedPractice pg ldLawyers baseData,
        description := jsOr (mergedDesc pg ldLawyers baseData) (description baseData),
        yearsLicensed := detailYears pg baseData,
        biography := jsOr (detailBiography pg)
          (jsOr (ldField biography ldLawyers) (biography baseData)),
        education := listOr (trimmedTexts (educationTexts pg))
          (jsOr (ldField education ldLawyers) (education baseData)),
        barAdmissions := listOr (trimmedTexts (admissionTexts pg))
          (jsOr (ldField barAdmissions ldLawyers) (barAdmissions baseData)),
        languages := listOr (trimmedTexts (languageTexts pg))
          (jsOr (ldField languages ldLawyers) (languages baseData))\<rparr>"

text \<open>
  The function. \<open>html\<close> is what \<open>fetchHtmlWithGot\<close> returns, the empty string when both of its
  attempts fail; \<open>pg\<close> is that page as the selectors see it. The body runs in a \<open>try\<close> whose
  handler returns \<open>baseData\<close>; the one call that can throw is \<open>extractLawyersFromJsonLdHtml\<close>.
  \<^verbatim>\<open>try {
    const html = await fetchHtmlWithGot({ url: profileUrl, proxyConfiguration, headers });
    if (!html || isBlockedHtml(html)) { ...; return baseData; }
    ...
    const ldLawyers = extractLawyersFromJsonLdHtml({ html, pageUrl: profileUrl });
    const ld = ldLawyers[0];
    ...
    return { ...baseData, ... };
  } catch (err) { ...; return baseData; }\<close>
\<close>

definition enrichProfileWithDetailsHttp ::
  "(string \<Rightarrow> string \<Rightarrow> string option) \<Rightarrow> string \<Rightarrow> string \<Rightarrow> detailPage \<Rightarrow> string \<Rightarrow> jsv lawyer
     \<Rightarrow> jsv lawyer" where
  "enrichProfileWithDetailsHttp resolve now html pg profileUrl baseData =
     (if html = [] \<or> isBlockedHtml_cheerio html then baseData
      else case extractLawyersFromJsonLdHtml resolve now (ldScripts pg) profileUrl of
        Inl err \<Rightarrow> baseData
      | Inr ldLawyers \<Rightarrow> mergedRecord pg ldLawyers baseData)"

section \<open>Sample profile pages\<close>

text \<open>
  A profile page on which no selector finds anything, and the same page with one JSON-LD script
  \<^verbatim>\<open>{"@type": "Attorney", "name": "Ann Lee", "telephone": "555-0199", "knowsLanguage": []}\<close>.
\<close>

definition bareProfile :: detailPage where
  "bareProfile =
     \<lparr>mailtoHref = None, emailText = [], biographyText = [], educationTexts = [],
      admissionTexts = [], languageTexts = [], practiceTexts = [], firmText = [], telText = [],
      telHref = None, telephoneText = [], streetText = [], localityText = [], regionText = [],
      postalText = [], locationText = [], bodyText = [], ldScripts = []\<rparr>"

definition annLeeLd :: jsv where
  "annLeeLd =
     JObj [(''@type'', JStr ''Attorney''), (''name'', JStr ''Ann Lee''),
           (''telephone'', JStr ''555-0199''), (''knowsLanguage'', JArr [])]"

definition ldOnlyProfile :: detailPage where
  "ldOnlyProfile = bareProfile\<lparr>ldScripts := [Some annLeeLd]\<rparr>"

text \<open>The listing record of Ann Lee with a phone number and two languages.\<close>

definition annLeeListed :: "jsv lawyer" where
  "annLeeListed =
     annLee\<lparr>phone := JStr ''555-0100'', languages := JArr [JStr ''English'', JStr ''Spanish'']\<rparr>"

section \<open>Properties of the blocking detector\<close>

lemma str_includes_Nil [simp]: "str_includes s [] = True"
  by (cases s) simp_all

lemma str_includes_sublist: "str_includes s needle = sublist needle s"
proof (induction s)
  case Nil
  then show ?case by simp
next
  case (Cons c cs)
  then show ?case by (cases needle) (auto simp: sublist_Cons_right)
qed

lemma isBlockedHtml_phrases:
  "isBlockedHtml html = (\<exists>p \<in> set blockedPhrases. str_includes (toLowerCase (take 5000 html)) p)"
  by (auto simp: isBlockedHtml_def blockedPhrases_def Let_def toLowerCase_def)

lemma isBlockedHtml_cheerio_phrases:
  "isBlockedHtml_cheerio html =
     (\<exists>p \<in> set blockedPhrases_cheerio. str_includes (toLowerCase html) p)"
  by (auto simp: isBlockedHtml_cheerio_def blockedPhrases_cheerio_def Let_def toLowerCase_def)

lemma isBlockedHtml_prefix: "isBlockedHtml (take 5000 html) = isBlockedHtml html"
  by (cases html) (simp_all add: isBlockedHtml_def)

lemma str_includes_append: "str_includes (pre @ needle @ post) needle"
  by (simp add: str_includes_sublist)

lemma str_includes_subset: "str_includes s needle \<Longrightarrow> set needle \<subseteq> set s"
  by (auto simp: str_includes_sublist sublist_def)

lemma toLowerCase_blanks: "toLowerCase (replicate n (CHR '' '')) = replicate n (CHR '' '')"
  by (simp add: toLowerCase_def lowerChar_def upperLetters_def lowerLetters_def)

lemma toLowerCase_append: "toLowerCase (a @ b) = toLowerCase a @ toLowerCase b"
  by (simp add: toLowerCase_def)

lemma lower_access: "toLowerCase ''access denied'' = ''access denied''"
  by (simp add: toLowerCase_def lowerChar_def upperLetters_def lowerLetters_def)

lemma blanks_no_phrase:
  "p \<in> set blockedPhrases_cheerio \<Longrightarrow> \<not> str_includes (replicate n (CHR '' '')) p"
proof
  assume p: "p \<in> set blockedPhrases_cheerio" and "str_includes (replicate n (CHR '' '')) p"
  then have "set p \<subseteq> {CHR '' ''}" by (auto dest!: str_includes_subset)
  with p show False by (auto simp: blockedPhrases_cheerio_def)
qed

text \<open>
  Claim C4, as amended. In the HTTP-first program a fetch result is blocked exactly when its
  status is 403, 429 or 503 or the lower-cased first 5000 characters of its body contain one of
  the four challenge phrases, and the verdict is the same when the body is cut to those 5000
  characters: nothing beyond them is read. In the CheerioCrawler program of main.js a page is
  blocked exactly when its status is 403 or its whole lower-cased body contains one of that
  program's five phrases.
\<close>

theorem blocking_detector_classification:
  "(blocked r \<longleftrightarrow>
      statusCode r \<in> {403, 429, 503} \<or>
      (\<exists>p \<in> set blockedPhrases. str_includes (toLowerCase (take 5000 (body r))) p)) \<and>
   blocked (r\<lparr>body := take 5000 (body r)\<rparr>) = blocked r \<and>
   (blocked_cheerio st html \<longleftrightarrow>
      st = Some 403 \<or> (\<exists>p \<in> set blockedPhrases_cheerio. str_includes (toLowerCase html) p))"
  unfolding blocked_def blocked_cheerio_def
  by (simp add: isBlockedHtml_phrases isBlockedHtml_cheerio_phrases isBlockedHtml_prefix
      del: isBlockedHtml_def) blast

text \<open>
  Claim C4 as stated fails on main.js: a response with status 429 and an empty body is not
  blocked there, and a body of 5000 blanks followed by \<open>access denied\<close> is blocked although
  its first 5000 characters hold no phrase (the same body cut to 5000 characters is not blocked).
\<close>

theorem blocking_detector_cheerio_counterexample:
  "blocked_cheerio (Some 429) [] = False \<and>
   blocked_cheerio (Some 200) (replicate 5000 (CHR '' '') @ ''access denied'') = True \<and>
   blocked_cheerio (Some 200) (take 5000 (replicate 5000 (CHR '' '') @ ''access denied'')) = False"
proof (intro conjI)
  show "blocked_cheerio (Some 429) [] = False"
    by (simp add: blocked_cheerio_def isBlockedHtml_cheerio_def)
  have "str_includes (toLowerCase (replicate 5000 (CHR '' '') @ ''access denied'')) ''access denied''"
    using str_includes_append [of "replicate 5000 (CHR '' '')" "''access denied''" "[]"]
    by (simp only: toLowerCase_append toLowerCase_blanks lower_access append_Nil2)
  then show "blocked_cheerio (Some 200) (replicate 5000 (CHR '' '') @ ''access denied'') = True"
    unfolding blocked_cheerio_def isBlockedHtml_cheerio_phrases
    by (auto simp: blockedPhrases_cheerio_def)
  show "blocked_cheerio (Some 200) (take 5000 (replicate 5000 (CHR '' '') @ ''access denied'')) = False"
    unfolding blocked_cheerio_def isBlockedHtml_cheerio_phrases
    using blanks_no_phrase [of _ 5000] by (auto simp: toLowerCase_blanks)
qed

section \<open>Properties of the deduplication ledger\<close>


text \<open>
  What the loop admits, said directly: the candidates in order, without those whose key is in
  the ledger or is the key of an earlier candidate, up to the first candidate whose key cannot
  be printed, and cut at what is left of the budget.
\<close>

lemma withinBudget_Cons:
  "\<not> (N > 0 \<and> tot \<ge> N) \<Longrightarrow> withinBudget N tot (x # xs) = x # withinBudget N (tot + 1) xs"
proof (cases "N > 0")
  case True
  assume "\<not> (N > 0 \<and> tot \<ge> N)"
  with True have "N - tot = Suc (N - (tot + 1))" by arith
  then have "take (N - tot) (x # xs) = x # take (N - (tot + 1)) xs" by simp
  with True show ?thesis by (simp add: withinBudget_def)
next
  case False
  then show ?thesis by (simp add: withinBudget_def)
qed

lemma admitLoop_fresh:
  "snd (snd (snd (admitLoop N ls (seen, tot, uq)))) = uq @ withinBudget N tot (freshByKey seen ls)"
proof (induction ls arbitrary: seen tot uq)
  case Nil
  then show ?case by (simp add: withinBudget_def)
next
  case (Cons l ls)
  show ?case
  proof (cases "dedupKey l")
    case (Inl e)
    then show ?thesis by (simp add: withinBudget_def)
  next
    case (Inr k)
    show ?thesis
    proof (cases "k \<in> seen")
      case True
      with Inr Cons.IH [of seen tot uq] show ?thesis by simp
    next
      case notseen: False
      show ?thesis
      proof (cases "N > 0 \<and> tot \<ge> N")
        case True
        with Inr notseen show ?thesis by (simp add: withinBudget_def)
      next
        case False
        with Inr notseen Cons.IH [of "insert k seen" "tot + 1" "uq @ [l]"]
        show ?thesis by (simp add: withinBudget_Cons)
      qed
    qed
  qed
qed

lemma admitLoop_returns:
  "\<forall>l \<in> set ls. dedupKey l \<noteq> Inl TypeError \<Longrightarrow> fst (admitLoop N ls (seen, tot, uq)) = None"
proof (induction ls arbitrary: seen tot uq)
  case Nil
  then show ?case by simp
next
  case (Cons l ls)
  from Cons.prems obtain k where k: "dedupKey l = Inr k"
    by (cases "dedupKey l") (auto intro: jsError.exhaust)
  from Cons.prems have rest: "\<forall>l \<in> set ls. dedupKey l \<noteq> Inl TypeError" by simp
  show ?case using k Cons.IH [OF rest] by simp
qed

lemma uniqueLoop_inv:
  "uniqueLoop N r ls (seen, uq) = (seen', uq') \<Longrightarrow>
   \<exists>nw. uq' = uq @ nw \<and> distinct (map website nw) \<and> website ` set nw \<inter> seen = {} \<and>
      seen' = seen \<union> website ` set nw \<and> set nw \<subseteq> set ls \<and> (\<forall>l \<in> set nw. website l \<noteq> []) \<and>
      (N > 0 \<and> length uq < r \<longrightarrow> length uq' \<le> r)"
proof (induction ls arbitrary: seen uq)
  case Nil
  then show ?case by simp
next
  case (Cons l ls)
  show ?case
  proof (cases "website l = [] \<or> website l \<in> seen")
    case True
    with Cons.prems have "uniqueLoop N r ls (seen, uq) = (seen', uq')"
      by (auto split: if_splits)
    from Cons.IH [OF this] show ?thesis by auto
  next
    case fresh: False
    show ?thesis
    proof (cases "N > 0 \<and> length (uq @ [l]) \<ge> r")
      case True
      with fresh Cons.prems have "seen' = insert (website l) seen" "uq' = uq @ [l]" by auto
      then show ?thesis
        by (intro exI [of _ "[l]"]) (use fresh True in auto)
    next
      case False
      with fresh Cons.prems
      have run: "uniqueLoop N r ls (insert (website l) seen, uq @ [l]) = (seen', uq')"
        by auto
      from Cons.IH [OF run] obtain nw where
        n: "uq' = (uq @ [l]) @ nw" "distinct (map website nw)"
           "website ` set nw \<inter> insert (website l) seen = {}"
           "seen' = insert (website l) seen \<union> website ` set nw"
           "set nw \<subseteq> set ls" "\<forall>l \<in> set nw. website l \<noteq> []"
           "N > 0 \<and> length (uq @ [l]) < r \<longrightarrow> length uq' \<le> r"
        by blast
      show ?thesis
        by (rule exI [of _ "l # nw"]) (use n fresh False in auto)
    qed
  qed
qed

lemma same_fields_same_key:
  "website a = [] \<Longrightarrow> website b = [] \<Longrightarrow> name a = name b \<Longrightarrow> location a = location b \<Longrightarrow>
   firmName a = firmName b \<Longrightarrow> dedupKey a = dedupKey b"
  by (simp add: dedupKey_def split: sum.splits)

text \<open>
  The identity key at work in the CheerioCrawler program: a record without URL has the key
  \<open>name|location|firmName\<close>; a second record with that key is not admitted; two records
  that differ in name and location can have the same key, since the separator is not escaped;
  and a record whose name is an object with a \<open>toString\<close> property has no key: the loop is left
  by the exception, with the first record counted.
\<close>

lemma identity_key_examples:
  "dedupKey annLee = Inr ''Ann Lee|Reno, NV|Lee Law'' \<and>
   dedupKey caseyKim = Inr (website caseyKim) \<and>
   admitLoop 0 [annLee, annLeeAgain] ({}, 0, []) = (None, {''Ann Lee|Reno, NV|Lee Law''}, 1, [annLee]) \<and>
   admitLoop 0 [barA, barB] ({}, 0, []) = (None, {''Smith|Jones|Reno|Roe''}, 1, [barA]) \<and>
   dedupKey (annLee\<lparr>name := JObj [(''toString'', JNull)]\<rparr>) = Inl TypeError \<and>
   dedupKey (annLee\<lparr>name := JNum ''1e+21''\<rparr>) = Inr ''1e+21|Reno, NV|Lee Law'' \<and>
   admitLoop 0 [caseyKim, annLee\<lparr>name := JObj [(''toString'', JNull)]\<rparr>, danaFox] ({}, 0, []) =
     (Some TypeError, {website caseyKim}, 1, [caseyKim])"
  by (simp add: barA_def barB_def annLee_def annLeeAgain_def caseyKim_def sampleLawyer_def
      dedupKey_def)

text \<open>
  In the loop of the HTTP-first program the key is the URL alone: records without URL are
  passed over.
\<close>

lemma url_key_examples:
  "uniqueLoop 0 2 [annLee, boRay] ({}, []) = ({}, []) \<and>
   uniqueLoop 0 2 [annLee, caseyKim, caseyKim] ({}, []) = ({website caseyKim}, [caseyKim])"
  by (simp add: annLee_def boRay_def caseyKim_def sampleLawyer_def)

section \<open>Properties of the strategy cascade\<close>

lemma firstJsonLd_dropWhile:
  "firstJsonLd ps = (case dropWhile (\<lambda>x. x = Inr []) ps of [] \<Rightarrow> Inr [] | x # rest \<Rightarrow> x)"
proof (induction ps)
  case Nil
  then show ?case by simp
next
  case (Cons p ps)
  then show ?case by (cases p) auto
qed

lemma cascadeBrowser_eq:
  "cascadeBrowser perScript viaHtm =
     (case dropWhile (\<lambda>x. x = Inr []) perScript of
        [] \<Rightarrow> Inr viaHtm
      | Inl err # rest \<Rightarrow> Inl err
      | Inr extracted # rest \<Rightarrow> Inr extracted)"
proof -
  define d where "d = dropWhile (\<lambda>x. x = Inr []) perScript"
  have "d \<noteq> [] \<Longrightarrow> hd d \<noteq> Inr []"
    unfolding d_def using hd_dropWhile [of "\<lambda>x. x = Inr []" perScript] by blast
  then have "(case (case d of [] \<Rightarrow> Inr [] | x # rest \<Rightarrow> x) of
                Inl err \<Rightarrow> Inl err
              | Inr lawyers \<Rightarrow> Inr (if lawyers = [] then viaHtm else lawyers)) =
             (case d of [] \<Rightarrow> Inr viaHtm | Inl err # rest \<Rightarrow> Inl err
              | Inr extracted # rest \<Rightarrow> Inr extracted)"
    by (cases d) (auto split: sum.splits)
  then show ?thesis
    unfolding cascadeBrowser_def firstJsonLd_dropWhile d_def .
qed

lemma cascadeHttp_eq:
  "cascadeHttp False viaApi viaEmbedded viaHtm =
     (if viaApi \<noteq> [] then viaApi else if viaEmbedded \<noteq> [] then viaEmbedded else viaHtm)"
  by (simp add: cascadeHttp_def)

lemma collectLawyers_eq:
  "collectLawyers htmlSnap jsonLd nextData viaHtm =
     (if htmlSnap = [] then [] else jsonLd @ nextData @ viaHtm)"
  by (simp add: collectLawyers_def)

text \<open>
  What the handler of main.js stores for a page on which the extractors return and every
  candidate has a key.
\<close>

lemma processListing_output:
  assumes h: "htmlSnapshot pg \<noteq> []"
    and j: "jsonLdLawyers pg = Inr jsonLd" and n: "nextDataLawyers pg = Inr nextData"
    and k: "\<forall>c \<in> set (jsonLd @ nextData @ htmlLawyers pg). dedupKey c \<noteq> Inl TypeError"
  shows "\<exists>l' urls. processListing cfg enrich l req pg = Returns (l', urls) \<and>
           dataset l' = dataset l @ enrichAll cfg enrich
             (withinBudget (maxLawyers cfg) (totalScraped l)
                (freshByKey (seenWebsites l) (jsonLd @ nextData @ htmlLawyers pg)))"
proof -
  let ?ls = "jsonLd @ nextData @ htmlLawyers pg"
  obtain err seen scraped unique where
    a: "admitLoop (maxLawyers cfg) ?ls (seenWebsites l, totalScraped l, []) = (err, seen, scraped, unique)"
    by (metis prod_cases4)
  from admitLoop_returns [OF k, of "maxLawyers cfg" "seenWebsites l" "totalScraped l" "[]"] a
  have e: "err = None" by simp
  from admitLoop_fresh [of "maxLawyers cfg" ?ls "seenWebsites l" "totalScraped l" "[]"] a
  have u: "unique = withinBudget (maxLawyers cfg) (totalScraped l) (freshByKey (seenWebsites l) ?ls)"
    by simp
  have c: "collectLawyers (htmlSnapshot pg) jsonLd nextData (htmlLawyers pg) = ?ls"
    using h by (simp add: collectLawyers_eq)
  show ?thesis
    unfolding processListing_def using h j n by (simp add: c a [unfolded e] u Let_def)
qed

text \<open>
  Claim C1, as amended. The extractors are tried in a fixed order. In the HTTP-first program the
  order is JSON API, embedded JSON, HTML and the page's candidates are the first non-empty
  list; in the Camoufox program the order is the JSON-LD scripts in document order, then HTML,
  and the candidates are what the first JSON-LD script with a non-empty extraction yields, or
  the HTML result when there is none (an exception of the JSON-LD extractor leaves the handler),
  so a page with both JSON-LD records and HTML records gives the JSON-LD records only. In the
  CheerioCrawler program of main.js every extractor runs and the candidates are the JSON-LD,
  Next-data and HTML records appended in that order; what the page adds to the dataset is
  those candidates, in that order, without the ones whose identity key is in the ledger or
  occurred earlier on the page, cut at what is left of the record budget, each enriched when
  enrichment is on.
\<close>

theorem cascade_priority:
  "cascadeHttp False viaApi viaEmbedded viaHtm =
     (if viaApi \<noteq> [] then viaApi else if viaEmbedded \<noteq> [] then viaEmbedded else viaHtm) \<and>
   cascadeBrowser perScript viaHtm =
     (case dropWhile (\<lambda>x. x = Inr []) perScript of
        [] \<Rightarrow> Inr viaHtm
      | Inl err # rest \<Rightarrow> Inl err
      | Inr extracted # rest \<Rightarrow> Inr extracted) \<and>
   collectLawyers htmlSnap jsonLd nextData viaHtm =
     (if htmlSnap = [] then [] else jsonLd @ nextData @ viaHtm) \<and>
   (htmlSnapshot pg \<noteq> [] \<and>
    \<not> (blocked_cheerio (responseStatus pg) (htmlSnapshot pg) \<and> retryCount req < 2) \<and>
    jsonLdLawyers pg = Inr fromLd \<and> nextDataLawyers pg = Inr fromNext \<and>
    (\<forall>c \<in> set (fromLd @ fromNext @ htmlLawyers pg). dedupKey c \<noteq> Inl TypeError) \<longrightarrow>
      (\<exists>l' urls. requestHandler cfg enrich l req pg = Returns (l', urls) \<and>
         dataset l' = dataset l @ enrichAll cfg enrich
           (withinBudget (maxLawyers cfg) (totalScraped l)
              (freshByKey (seenWebsites l) (fromLd @ fromNext @ htmlLawyers pg)))))"
proof (intro conjI impI)
  assume a: "htmlSnapshot pg \<noteq> [] \<and>
    \<not> (blocked_cheerio (responseStatus pg) (htmlSnapshot pg) \<and> retryCount req < 2) \<and>
    jsonLdLawyers pg = Inr fromLd \<and> nextDataLawyers pg = Inr fromNext \<and>
    (\<forall>c \<in> set (fromLd @ fromNext @ htmlLawyers pg). dedupKey c \<noteq> Inl TypeError)"
  then have "requestHandler cfg enrich l req pg = processListing cfg enrich l req pg"
    by (auto simp add: requestHandler_def)
  with a processListing_output [of pg fromLd fromNext cfg enrich l req]
  show "\<exists>l' urls. requestHandler cfg enrich l req pg = Returns (l', urls) \<and>
         dataset l' = dataset l @ enrichAll cfg enrich
           (withinBudget (maxLawyers cfg) (totalScraped l)
              (freshByKey (seenWebsites l) (fromLd @ fromNext @ htmlLawyers pg)))"
    by simp
qed (rule cascadeHttp_eq cascadeBrowser_eq collectLawyers_eq)+

lemma plain_page_not_blocked:
  "\<not> blocked_cheerio (Some 200) ''<html>...</html>''"
  by code_simp

lemma overlap_page_output:
  "requestHandler (plainConfig 0 0) id emptyLedger \<lparr>reqUrl = nevadaUrl, retryCount = 0\<rparr> overlapPage =
     Returns (\<lparr>seenWebsites = {website danaFox, website caseyKim}, totalScraped = 2,
                pagesProcessed = 1, dataset = [caseyKim, danaFox]\<rparr>, [])"
  by (simp add: requestHandler_def processListing_def overlapPage_def plainConfig_def
      emptyLedger_def collectLawyers_def enrichAll_def enqueueNext_def plain_page_not_blocked
      caseyKim_def caseyKimCard_def danaFox_def sampleLawyer_def dedupKey_def)

theorem cascade_priority_witness:
  "htmlSnapshot overlapPage \<noteq> [] \<and>
   jsonLdLawyers overlapPage = Inr [caseyKim] \<and> nextDataLawyers overlapPage = Inr [] \<and>
   htmlLawyers overlapPage = [caseyKimCard, danaFox] \<and>
   dedupKey caseyKim = Inr (website caseyKim) \<and> dedupKey caseyKimCard = Inr (website caseyKim) \<and>
   dedupKey danaFox = Inr (website danaFox) \<and>
   freshByKey {} [caseyKim, caseyKimCard, danaFox] = [caseyKim, danaFox] \<and>
   requestHandler (plainConfig 0 0) id emptyLedger \<lparr>reqUrl = nevadaUrl, retryCount = 0\<rparr> overlapPage =
     Returns (\<lparr>seenWebsites = {website danaFox, website caseyKim}, totalScraped = 2,
                pagesProcessed = 1, dataset = [caseyKim, danaFox]\<rparr>, []) \<and>
   cascadeBrowser [Inr [], Inr [caseyKim], Inl TypeError] [danaFox] = Inr [caseyKim] \<and>
   cascadeHttp False [] [caseyKim] [danaFox] = [caseyKim]"
  using cascade_priority [where pg = overlapPage and fromLd = "[caseyKim]" and fromNext = "[]"
      and req = "\<lparr>reqUrl = nevadaUrl, retryCount = 0\<rparr>" and cfg = "plainConfig 0 0"
      and enrich = id and l = emptyLedger
      and perScript = "[Inr [], Inr [caseyKim], Inl TypeError]" and viaHtm = "[danaFox]"
      and viaApi = "[]" and viaEmbedded = "[caseyKim]"]
    overlap_page_output
  by (simp add: overlapPage_def plain_page_not_blocked caseyKim_def caseyKimCard_def danaFox_def
      sampleLawyer_def dedupKey_def)

text \<open>
  Claim C1 as stated fails on the handler of main.js: on a page whose JSON-LD block yields one
  record and whose HTML cards yield a different one, both are stored.
\<close>

theorem cascade_counterexample:
  "jsonLdLawyers bothSourcesPage = Inr [caseyKim] \<and> htmlLawyers bothSourcesPage = [danaFox] \<and>
   caseyKim \<noteq> danaFox \<and>
   requestHandler (plainConfig 0 0) id emptyLedger \<lparr>reqUrl = ''https://www.justia.com/lawyers/nevada'', retryCount = 0\<rparr>
       bothSourcesPage =
     Returns (\<lparr>seenWebsites = {website danaFox, website caseyKim}, totalScraped = 2,
                pagesProcessed = 1, dataset = [caseyKim, danaFox]\<rparr>, [])"
  by (simp add: requestHandler_def processListing_def bothSourcesPage_def plainConfig_def
      emptyLedger_def collectLawyers_def enrichAll_def enqueueNext_def plain_page_not_blocked
      caseyKim_def danaFox_def sampleLawyer_def dedupKey_def)

section \<open>Properties of the crawler handlers\<close>

lemma enqueueNext_cases:
  "enqueueNext cfg l u n = [] \<or> (enqueueNext cfg l u n = [n] \<and> n \<noteq> [] \<and> n \<noteq> u)"
  by (simp add: enqueueNext_def)


lemma requestHandler_Returns:
  assumes "requestHandler cfg enrich l req pg = Returns (l', urls)"
  shows "\<exists>lawyers seen scraped unique.
           admitLoop (maxLawyers cfg) lawyers (seenWebsites l, totalScraped l, []) =
             (None, seen, scraped, unique) \<and>
           l' = l\<lparr>seenWebsites := seen, totalScraped := scraped, pagesProcessed := pagesProcessed l + 1,
                  dataset := dataset l @ enrichAll cfg enrich unique\<rparr> \<and>
           urls = enqueueNext cfg l' (reqUrl req) (nextPageUrl pg)"
  using assms unfolding requestHandler_def processListing_def
  by (auto simp: Let_def split: if_splits sum.splits prod.splits option.splits)



lemma requestHandler_browser_Returns:
  assumes "requestHandler_browser cfg enrich l req pg = Returns (l', urls)"
  shows "\<exists>l1. urls = enqueueNext cfg l1 (reqUrl req) (nextLink pg)"
  using assms unfolding requestHandler_browser_def
  by (auto simp: Let_def split: if_splits sum.splits prod.splits)

lemma length_enrichAll [simp]: "length (enrichAll cfg enrich unique) = length unique"
  by (simp add: enrichAll_def)

lemma crawlFor_idle: "queue c = [] \<Longrightarrow> crawlFor k m cfg handler site c = c"
  by (induction k) (simp_all add: crawlStep_def)

lemma crawlStep_last_request:
  assumes "queue c = [req]"
    and "handler (led c) req (site (length (fetched c)) (reqUrl req)) = Returns (l', [])"
  shows "queue (crawlStep m cfg handler site c) = []"
  using assms by (simp add: crawlStep_def addRequests_def Let_def)

text \<open>
  Claim C10. Whatever a crawler handler hands to \<open>addRequests\<close> is either nothing or the one URL
  \<open>findNextPageUrl\<close> resolved, and then that URL is non-empty and differs from the URL of the
  request just processed; so the handler never enqueues its own page. When the next-page URL of
  the only queued request resolves to the request's own URL and the handler returns, the queue
  is empty afterwards and the crawl makes no further step.
\<close>

theorem next_page_enqueue_guard:
  "(requestHandler cfg enrich l req pg = Returns (l', urls) \<longrightarrow>
      reqUrl req \<notin> set urls \<and>
      (urls = [] \<or> (urls = [nextPageUrl pg] \<and> nextPageUrl pg \<noteq> []))) \<and>
   (requestHandler_browser cfg enrich l req rp = Returns (l', urls) \<longrightarrow>
      reqUrl req \<notin> set urls \<and>
      (urls = [] \<or> (urls = [nextLink rp] \<and> nextLink rp \<noteq> []))) \<and>
   (queue c = [req] \<and> nextPageUrl (site (length (fetched c)) (reqUrl req)) = reqUrl req \<and>
    \<not> isThrows (requestHandler cfg enrich (led c) req (site (length (fetched c)) (reqUrl req))) \<longrightarrow>
      queue (crawlStep m cfg (requestHandler cfg enrich) site c) = [] \<and>
      crawlFor k m cfg (requestHandler cfg enrich) site
          (crawlStep m cfg (requestHandler cfg enrich) site c) =
        crawlStep m cfg (requestHandler cfg enrich) site c)"
proof (intro conjI impI)
  assume "requestHandler cfg enrich l req pg = Returns (l', urls)"
  from requestHandler_Returns [OF this] obtain l1 where
    "urls = enqueueNext cfg l1 (reqUrl req) (nextPageUrl pg)" by blast
  with enqueueNext_cases [of cfg l1 "reqUrl req" "nextPageUrl pg"]
  show "reqUrl req \<notin> set urls" "urls = [] \<or> (urls = [nextPageUrl pg] \<and> nextPageUrl pg \<noteq> [])"
    by auto
next
  assume "requestHandler_browser cfg enrich l req rp = Returns (l', urls)"
  from requestHandler_browser_Returns [OF this] obtain l1 where
    "urls = enqueueNext cfg l1 (reqUrl req) (nextLink rp)" by blast
  with enqueueNext_cases [of cfg l1 "reqUrl req" "nextLink rp"]
  show "reqUrl req \<notin> set urls" "urls = [] \<or> (urls = [nextLink rp] \<and> nextLink rp \<noteq> [])"
    by auto
next
  let ?pg = "site (length (fetched c)) (reqUrl req)"
  let ?c' = "crawlStep m cfg (requestHandler cfg enrich) site c"
  assume a: "queue c = [req] \<and> nextPageUrl ?pg = reqUrl req \<and>
    \<not> isThrows (requestHandler cfg enrich (led c) req ?pg)"
  then obtain l1 urls where r: "requestHandler cfg enrich (led c) req ?pg = Returns (l1, urls)"
    by (cases "requestHandler cfg enrich (led c) req ?pg") auto
  from requestHandler_Returns [OF r] obtain l2 where
    "urls = enqueueNext cfg l2 (reqUrl req) (nextPageUrl ?pg)" by blast
  with a enqueueNext_cases [of cfg l2 "reqUrl req" "reqUrl req"] have "urls = []" by auto
  with a r show q: "queue ?c' = []"
    by (simp add: crawlStep_def addRequests_def Let_def)
  then show "crawlFor k m cfg (requestHandler cfg enrich) site ?c' = ?c'"
    by (rule crawlFor_idle)
qed

theorem next_page_enqueue_guard_witness:
  "requestHandler (plainConfig 0 0) id emptyLedger \<lparr>reqUrl = nevadaUrl, retryCount = 0\<rparr> selfLinkPage =
     Returns (\<lparr>seenWebsites = {website caseyKim}, totalScraped = 1, pagesProcessed = 1,
                dataset = [caseyKim]\<rparr>, []) \<and>
   requestHandler_browser (plainConfig 0 0) id emptyLedger \<lparr>reqUrl = nevadaUrl, retryCount = 0\<rparr>
       selfLinkRendered =
     Returns (\<lparr>seenWebsites = {website caseyKim}, totalScraped = 1, pagesProcessed = 1,
                dataset = [caseyKim]\<rparr>, []) \<and>
   queue (crawlStep 4 (plainConfig 0 0) (requestHandler (plainConfig 0 0) id) (\<lambda>i u. selfLinkPage)
            (startCrawl nevadaUrl)) = [] \<and>
   fetched (crawlFor 3 4 (plainConfig 0 0) (requestHandler (plainConfig 0 0) id) (\<lambda>i u. selfLinkPage)
            (crawlStep 4 (plainConfig 0 0) (requestHandler (plainConfig 0 0) id) (\<lambda>i u. selfLinkPage)
               (startCrawl nevadaUrl))) = [nevadaUrl]"
proof -
  let ?cfg = "plainConfig 0 0"
  let ?req = "\<lparr>reqUrl = nevadaUrl, retryCount = 0\<rparr>"
  let ?l' = "\<lparr>seenWebsites = {website caseyKim}, totalScraped = 1, pagesProcessed = 1,
                dataset = [caseyKim]\<rparr>"
  have h1: "requestHandler ?cfg id emptyLedger ?req selfLinkPage = Returns (?l', [])"
    by (simp add: requestHandler_def processListing_def selfLinkPage_def plainConfig_def emptyLedger_def
        collectLawyers_def enrichAll_def enqueueNext_def blocked_cheerio_def
        isBlockedHtml_cheerio_def toLowerCase_def lowerChar_def upperLetters_def lowerLetters_def caseyKim_def sampleLawyer_def
        dedupKey_def nevadaUrl_def)
  have h2: "requestHandler_browser ?cfg id emptyLedger ?req selfLinkRendered = Returns (?l', [])"
    by (simp add: requestHandler_browser_def selfLinkRendered_def plainConfig_def emptyLedger_def
        enrichAll_def enqueueNext_def caseyKim_def sampleLawyer_def nevadaUrl_def)
  have h3: "queue (startCrawl nevadaUrl) = [?req] \<and>
      nextPageUrl selfLinkPage = reqUrl ?req \<and>
      \<not> isThrows (requestHandler ?cfg id (led (startCrawl nevadaUrl)) ?req selfLinkPage)"
    using h1 by (simp add: startCrawl_def selfLinkPage_def emptyLedger_def)
  have f: "fetched (crawlStep 4 ?cfg (requestHandler ?cfg id) (\<lambda>i u. selfLinkPage)
            (startCrawl nevadaUrl)) = [nevadaUrl]"
    using h1
    by (simp add: crawlStep_def startCrawl_def emptyLedger_def addRequests_def Let_def
        plainConfig_def)
  from next_page_enqueue_guard [where cfg = ?cfg and enrich = id and l = emptyLedger
      and req = ?req and pg = selfLinkPage and l' = ?l' and urls = "[]" and rp = selfLinkRendered
      and c = "startCrawl nevadaUrl" and site = "\<lambda>i u. selfLinkPage" and m = 4 and k = 3]
    h1 h2 h3 f
  show ?thesis by simp
qed

section \<open>The record budget\<close>

subsection \<open>CheerioCrawler program\<close>








subsection \<open>HTTP-first program\<close>












text \<open>The equations that evaluate a concrete run of the HTTP-first program.\<close>

lemmas evalRun = httpStep_def startRun_def httpIteration_def
  httpGet_def blocked_def isBlockedHtml_def toLowerCase_def lowerChar_def upperLetters_def lowerLetters_def
  extractListingViaJsonApi_def cascadeHttp_def saveResults_def remainingOf_def
  fallbackStep_def startFallback_def fetchProfileDetails_def profileVerdict_def detailsOfRaw_def
  strings_def nullish_def runSummary_def eval_nat_numeral
  plainConfig_def caseyKim_def danaFox_def annLee_def boRay_def sampleLawyer_def






section \<open>The identity key across a run\<close>

text \<open>
  Within one call, the loop of the HTTP-first program admits records with pairwise distinct,
  non-empty URLs that were not in the ledger, and adds them to the ledger.
\<close>

lemma uniqueLoop_admits_new:
  assumes "uniqueLoop N r ls (seen, []) = (seen', uq)"
  shows "(\<forall>l \<in> set uq. website l \<noteq> [] \<and> website l \<notin> seen) \<and> distinct (map website uq) \<and>
         seen' = seen \<union> website ` set uq"
  using uniqueLoop_inv [OF assms] by auto

lemma revisit_run_ledger:
  "website caseyKim \<in> seenWebsites (runFor 2 revisitEnv (plainConfig 0 0) (startRun ''/p1''))"
  by (simp add: evalRun Let_def revisitEnv_def)

text \<open>
  Claim C3. The claim says that a record whose identity key was admitted earlier in the same
  run is not stored a second time. In the HTTP-first program the run loop keeps the keys in
  \<open>seenWebsites\<close>, but \<open>runBrowserFallback\<close> starts with a set \<open>seen\<close> of its own, which is empty:
  on a site whose first page is served and lists Casey Kim, and whose second page is blocked
  and, in the browser, lists Casey Kim again and Dana Fox, the run stores Casey Kim twice.
\<close>

theorem identity_key_second_copy:
  "runSummary (runFor 3 revisitEnv (plainConfig 0 0) (startRun ''/p1'')) =
     ([caseyKim, caseyKim, danaFox],
      [Fetched Lightweight Listing ''/p1'' (Some False),
       Fetched Lightweight Listing ''/p2'' (Some True),
       Fetched Rendered Listing ''/p2'' None],
      Finished)"
  by (simp add: evalRun Let_def revisitEnv_def)

section \<open>Escalation\<close>

lemma calm_append [simp]: "calm (xs @ ys) = (calm xs \<and> calm ys)"
  by (simp add: calm_def)

lemma calm_Nil [simp]: "calm []"
  by (simp add: calm_def)

lemma httpGet_log:
  assumes "httpGet env lg what u classify = (lg', res)"
  shows "\<exists>v. lg' = lg @ [Fetched Lightweight what u v] \<and>
       (case res of None \<Rightarrow> v = None | Some r \<Rightarrow> v = classify r)"
proof (cases "fetchHttp env (length lg) u")
  case None
  with assms have "lg' = lg @ [Fetched Lightweight what u None]" "res = None"
    by (simp_all add: httpGet_def)
  then show ?thesis by simp
next
  case (Some r)
  with assms have "lg' = lg @ [Fetched Lightweight what u (classify r)]" "res = Some r"
    by (simp_all add: httpGet_def)
  then show ?thesis by simp
qed

lemma httpGet_calm:
  assumes "httpGet env lg what u classify = (lg', res)" "calm lg" "what \<noteq> Listing"
  shows "calm lg'"
  using httpGet_log [OF assms(1)] assms(2,3) by (auto simp: calm_def)

lemma extractListingViaJsonApi_calm:
  assumes "extractListingViaJsonApi env lg r = (lg', res)" "calm lg"
  shows "calm lg'"
proof (cases "apiUrlOf env (body r) (url r) = []")
  case True
  with assms show ?thesis by (simp add: extractListingViaJsonApi_def)
next
  case False
  obtain lg1 r1 where g: "httpGet env lg ApiEndpoint (apiUrlOf env (body r) (url r)) (\<lambda>ra. None) = (lg1, r1)"
    by (cases "httpGet env lg ApiEndpoint (apiUrlOf env (body r) (url r)) (\<lambda>ra. None)")
  with assms(1) False have "lg' = lg1"
    by (auto simp: extractListingViaJsonApi_def Let_def split: option.splits)
  with httpGet_calm [OF g assms(2)] show ?thesis by simp
qed

lemma enrichLoop_calm:
  "enrichLoop env us lg en = (lg', res) \<Longrightarrow> calm lg \<Longrightarrow> calm lg'"
proof (induction us arbitrary: lg en)
  case Nil
  then show ?case by simp
next
  case (Cons base rest)
  obtain lg1 r1 where g: "httpGet env lg Profile (website base) profileVerdict = (lg1, r1)"
    by (cases "httpGet env lg Profile (website base) profileVerdict")
  from httpGet_calm [OF g Cons.prems(2)] have c1: "calm lg1" by simp
  show ?case
  proof (cases r1)
    case None
    with Cons.prems(1) g c1 show ?thesis by simp
  next
    case (Some r)
    with Cons.prems(1) g
    have "enrichLoop env rest lg1 (en @ [mergeDetails base (fetchProfileDetails env r)]) = (lg', res)"
      by simp
    from Cons.IH [OF this c1] show ?thesis .
  qed
qed

lemma saveResults_calm:
  assumes "calm (fetchLog s)"
  shows "calm (fetchLog (saveResults env cfg lawyers s))"
proof (cases "lawyers = []")
  case True
  with assms show ?thesis by (simp add: saveResults_def)
next
  case False
  obtain seen unique where u: "uniqueLoop (maxLawyers cfg)
       (remainingOf (maxLawyers cfg) (totalScraped s) lawyers) lawyers (seenWebsites s, []) = (seen, unique)"
    by (cases "uniqueLoop (maxLawyers cfg)
       (remainingOf (maxLawyers cfg) (totalScraped s) lawyers) lawyers (seenWebsites s, [])")
  obtain lg res where e: "enrichLoop env unique (fetchLog s) [] = (lg, res)"
    by (cases "enrichLoop env unique (fetchLog s) []")
  from enrichLoop_calm [OF e assms] have "calm lg" .
  with False u e assms show ?thesis
    by (cases res) (auto simp: saveResults_def Let_def)
qed

lemma saveResults_frame:
  "nextUrl (saveResults env cfg lawyers s) = nextUrl s \<and>
   (phase (saveResults env cfg lawyers s) = phase s \<or> phase (saveResults env cfg lawyers s) = Failed)"
  by (auto simp: saveResults_def Let_def split: prod.splits option.splits)

text \<open>
  The shape of the log once the loop has escalated at URL \<open>u\<close>: calm fetches, the blocked
  listing fetch of \<open>u\<close>, then rendered fetches only, the first of them of \<open>u\<close>.
\<close>

definition escalatedAt :: "fetchEvent list \<Rightarrow> string \<Rightarrow> fetchEvent list \<Rightarrow> fetchEvent list \<Rightarrow> bool" where
  "escalatedAt pre u post lg =
     (lg = pre @ Fetched Lightweight Listing u (Some True) # post \<and> calm pre \<and> renderedOnly post \<and>
      (post \<noteq> [] \<longrightarrow> hd post = Fetched Rendered Listing u None))"

definition escalationOk :: "httpRun \<Rightarrow> bool" where
  "escalationOk s =
     (case phase s of
        HttpLoop \<Rightarrow> calm (fetchLog s)
      | BrowserFallback \<Rightarrow>
          (\<exists>pre u post. escalatedAt pre u post (fetchLog s) \<and>
             (post = [] \<longrightarrow> fbQueue s = [u] \<and> fbHandled s < fbMaxRequests s))
      | Finished \<Rightarrow>
          calm (fetchLog s) \<or> (\<exists>pre u post. escalatedAt pre u post (fetchLog s) \<and> post \<noteq> [])
      | Failed \<Rightarrow> calm (fetchLog s))"

lemma httpIteration_escalation:
  assumes ok: "escalationOk s" and p: "phase s = HttpLoop"
  shows "escalationOk (httpIteration env cfg s)"
proof -
  from ok p have c: "calm (fetchLog s)" by (simp add: escalationOk_def)
  let ?s1 = "s\<lparr>pagesProcessed := pagesProcessed s + 1\<rparr>"
  consider (stop) "nextUrl s = [] \<or> (maxPages cfg > 0 \<and> pagesProcessed s \<ge> maxPages cfg) \<or>
                   (maxLawyers cfg > 0 \<and> totalScraped s \<ge> maxLawyers cfg)"
    | (go) "nextUrl s \<noteq> []" "(maxPages cfg > 0 \<and> pagesProcessed s \<ge> maxPages cfg) = False"
           "(maxLawyers cfg > 0 \<and> totalScraped s \<ge> maxLawyers cfg) = False"
    by blast
  then show ?thesis
  proof cases
    case stop
    then have "httpIteration env cfg s = s\<lparr>phase := Finished\<rparr>"
      by (auto simp: httpIteration_def)
    with c show ?thesis by (simp add: escalationOk_def)
  next
    case go
    obtain lg res where g: "httpGet env (fetchLog s) Listing (nextUrl s) (\<lambda>r. Some (blocked r)) = (lg, res)"
      by (cases "httpGet env (fetchLog s) Listing (nextUrl s) (\<lambda>r. Some (blocked r))")
    from httpGet_log [OF g] obtain v where
      lg: "lg = fetchLog s @ [Fetched Lightweight Listing (nextUrl s) v]"
      and v: "case res of None \<Rightarrow> v = None | Some r \<Rightarrow> v = Some (blocked r)"
      by blast
    show ?thesis
    proof (cases res)
      case None
      with v have "v = None" by simp
      with lg c have "calm lg" by (simp add: calm_def)
      with g None show ?thesis
        by (simp add: go httpIteration_def escalationOk_def Let_def)
    next
      case (Some r)
      with v have vr: "v = Some (blocked r)" by simp
      show ?thesis
      proof (cases "blocked r")
        case True
        have "escalatedAt (fetchLog s) (nextUrl s) [] lg"
          using lg vr True c by (simp add: escalatedAt_def renderedOnly_def)
        then have ex: "\<exists>pre u post. escalatedAt pre u post lg \<and> (post = [] \<longrightarrow> nextUrl s = u)"
          by blast
        have "httpIteration env cfg s = startFallback cfg (?s1\<lparr>fetchLog := lg\<rparr>)"
          using g Some True by (simp add: go httpIteration_def Let_def)
        then show ?thesis using ex
          by (simp add: escalationOk_def startFallback_def Let_def)
      next
        case nb: False
        with lg vr c have clg: "calm lg" by (simp add: calm_def)
        obtain lg' api where a: "extractListingViaJsonApi env lg r = (lg', api)"
          by (cases "extractListingViaJsonApi env lg r")
        from extractListingViaJsonApi_calm [OF a clg] have clg': "calm lg'" .
        show ?thesis
        proof (cases api)
          case None
          with g \<open>res = Some r\<close> nb a clg' show ?thesis
            by (simp add: go httpIteration_def escalationOk_def Let_def)
        next
          case (Some viaApi)
          let ?lawyers = "cascadeHttp (blocked r) viaApi (embeddedJsonOf env (body r) (url r))
                            (listingOf env (body r) (url r))"
          let ?s2 = "saveResults env cfg ?lawyers (?s1\<lparr>fetchLog := lg'\<rparr>)"
          have c2: "calm (fetchLog ?s2)"
            by (rule saveResults_calm) (simp add: clg')
          have ph: "phase ?s2 = HttpLoop \<or> phase ?s2 = Failed"
            using saveResults_frame [of env cfg ?lawyers "?s1\<lparr>fetchLog := lg'\<rparr>"] p by auto
          have eq: "httpIteration env cfg s =
              (if phase ?s2 = Failed then ?s2
               else if maxLawyers cfg > 0 \<and> totalScraped ?s2 \<ge> maxLawyers cfg then ?s2\<lparr>phase := Finished\<rparr>
               else (let next = nextOf env (body r) (url r) in
                     if next = [] then ?s2\<lparr>nextUrl := [], phase := Finished\<rparr>
                     else ?s2\<lparr>nextUrl := next\<rparr>))"
            using g \<open>res = Some r\<close> nb a Some
            by (simp add: go httpIteration_def Let_def)
          show ?thesis unfolding eq using c2 ph
            by (auto simp: escalationOk_def Let_def)
        qed
      qed
    qed
  qed
qed

lemma fallbackStep_escalation:
  assumes ok: "escalationOk s" and p: "phase s = BrowserFallback"
  shows "escalationOk (fallbackStep env s)"
proof -
  from ok p obtain pre u post where
    e: "escalatedAt pre u post (fetchLog s)"
    and pend: "post = [] \<longrightarrow> fbQueue s = [u] \<and> fbHandled s < fbMaxRequests s"
    by (auto simp: escalationOk_def)
  show ?thesis
  proof (cases "fbQueue s")
    case Nil
    with pend have "post \<noteq> []" by auto
    with e Nil show ?thesis by (auto simp: fallbackStep_def escalationOk_def)
  next
    case (Cons u' rest)
    show ?thesis
    proof (cases "fbHandled s \<ge> fbMaxRequests s")
      case True
      with pend have "post \<noteq> []" by auto
      with e Cons True show ?thesis by (auto simp: fallbackStep_def escalationOk_def)
    next
      case False
      have first: "post = [] \<longrightarrow> u' = u" using pend Cons by auto
      have e': "escalatedAt pre u (post @ [Fetched Rendered Listing u' None])
                  (fetchLog s @ [Fetched Rendered Listing u' None])"
        using e first by (cases post) (auto simp: escalatedAt_def renderedOnly_def)
      have lg: "fetchLog (fallbackStep env s) = fetchLog s @ [Fetched Rendered Listing u' None]"
        and ph: "phase (fallbackStep env s) = BrowserFallback \<or> phase (fallbackStep env s) = Finished"
        using Cons False by (auto simp: fallbackStep_def Let_def split: prod.splits)
      from e' lg have "\<exists>pre u post. escalatedAt pre u post (fetchLog (fallbackStep env s)) \<and> post \<noteq> []"
        by (intro exI [of _ pre] exI [of _ u] exI [of _ "post @ [Fetched Rendered Listing u' None]"])
           simp
      then obtain pre' w post' where
        w: "escalatedAt pre' w post' (fetchLog (fallbackStep env s))" "post' \<noteq> []"
        by blast
      from ph show ?thesis
      proof
        assume "phase (fallbackStep env s) = BrowserFallback"
        moreover have "\<exists>pre u post. escalatedAt pre u post (fetchLog (fallbackStep env s)) \<and>
            (post = [] \<longrightarrow> fbQueue (fallbackStep env s) = [u] \<and>
               fbHandled (fallbackStep env s) < fbMaxRequests (fallbackStep env s))"
          using w by blast
        ultimately show ?thesis by (simp add: escalationOk_def)
      next
        assume "phase (fallbackStep env s) = Finished"
        moreover have "\<exists>pre u post. escalatedAt pre u post (fetchLog (fallbackStep env s)) \<and> post \<noteq> []"
          using w by blast
        ultimately show ?thesis by (simp add: escalationOk_def)
      qed
    qed
  qed
qed

lemma httpStep_escalation: "escalationOk s \<Longrightarrow> escalationOk (httpStep env cfg s)"
  using httpIteration_escalation fallbackStep_escalation
  by (cases "phase s") (auto simp: httpStep_def)

lemma runFor_escalation: "escalationOk s \<Longrightarrow> escalationOk (runFor k env cfg s)"
  by (induction k arbitrary: s) (auto intro: httpStep_escalation)

lemma runFor_Suc_right: "runFor (Suc k) env cfg s = httpStep env cfg (runFor k env cfg s)"
  by (induction k arbitrary: s) auto

lemma startRun_escalation: "escalationOk (startRun u)"
  by (simp add: escalationOk_def startRun_def)

lemma pending_refetch:
  assumes "phase s = BrowserFallback" "fbQueue s = [u]" "fbHandled s < fbMaxRequests s"
  shows "fetchLog (httpStep env cfg s) = fetchLog s @ [Fetched Rendered Listing u None]"
  using assms by (auto simp: httpStep_def fallbackStep_def Let_def split: prod.splits)

text \<open>
  The CheerioCrawler program on a page that is blocked every time it is fetched: the first two
  attempts throw and leave everything as it was, and the request comes back with
  \<open>retryCount = 2\<close>.
\<close>

lemma blocked_page_two_attempts:
  assumes b: "blocked_cheerio (responseStatus pg) (htmlSnapshot pg)" and m: "2 \<le> m"
  shows "crawlFor 2 m cfg (requestHandler cfg enrich) (\<lambda>i u. pg) (startCrawl u1) =
           (startCrawl u1)\<lparr>queue := [\<lparr>reqUrl = u1, retryCount = 2\<rparr>], fetched := [u1, u1]\<rparr>"
proof -
  have np: "(0 < maxPages cfg \<and> maxPages cfg = 0) = False"
    by auto
  have t: "\<And>l n. n < 2 \<Longrightarrow> requestHandler cfg enrich l \<lparr>reqUrl = u1, retryCount = n\<rparr> pg = Throws l"
    using b by (simp add: requestHandler_def)
  have s1: "crawlStep m cfg (requestHandler cfg enrich) (\<lambda>i u. pg) (startCrawl u1) =
      (startCrawl u1)\<lparr>queue := [\<lparr>reqUrl = u1, retryCount = 1\<rparr>], fetched := [u1]\<rparr>"
    using m by (simp add: crawlStep_def startCrawl_def Let_def t np)
  have s2: "crawlStep m cfg (requestHandler cfg enrich) (\<lambda>i u. pg)
        ((startCrawl u1)\<lparr>queue := [\<lparr>reqUrl = u1, retryCount = 1\<rparr>], fetched := [u1]\<rparr>) =
      (startCrawl u1)\<lparr>queue := [\<lparr>reqUrl = u1, retryCount = 2\<rparr>], fetched := [u1, u1]\<rparr>"
    using m by (simp add: crawlStep_def startCrawl_def Let_def t np)
  have "crawlFor 2 m cfg (requestHandler cfg enrich) (\<lambda>i u. pg) (startCrawl u1) =
      crawlStep m cfg (requestHandler cfg enrich) (\<lambda>i u. pg)
        (crawlStep m cfg (requestHandler cfg enrich) (\<lambda>i u. pg) (startCrawl u1))"
    by (simp add: eval_nat_numeral)
  then show ?thesis
    by (simp only: s1 s2)
qed

lemma blocked_page_third_attempt:
  assumes b: "blocked_cheerio (responseStatus pg) (htmlSnapshot pg)" and m: "2 \<le> m"
    and r: "processListing cfg enrich (led (startCrawl u1)) \<lparr>reqUrl = u1, retryCount = 2\<rparr> pg =
              Returns (l', urls)"
  shows "fetched (crawlFor 3 m cfg (requestHandler cfg enrich) (\<lambda>i u. pg) (startCrawl u1)) = [u1, u1, u1] \<and>
         led (crawlFor 3 m cfg (requestHandler cfg enrich) (\<lambda>i u. pg) (startCrawl u1)) = l'"
proof -
  let ?c2 = "(startCrawl u1)\<lparr>queue := [\<lparr>reqUrl = u1, retryCount = 2\<rparr>], fetched := [u1, u1]\<rparr>"
  have "crawlFor 3 m cfg (requestHandler cfg enrich) (\<lambda>i u. pg) (startCrawl u1) =
      crawlStep m cfg (requestHandler cfg enrich) (\<lambda>i u. pg)
        (crawlFor 2 m cfg (requestHandler cfg enrich) (\<lambda>i u. pg) (startCrawl u1))"
    by (simp add: eval_nat_numeral)
  then have c3: "crawlFor 3 m cfg (requestHandler cfg enrich) (\<lambda>i u. pg) (startCrawl u1) =
      crawlStep m cfg (requestHandler cfg enrich) (\<lambda>i u. pg) ?c2"
    by (simp only: blocked_page_two_attempts [OF b m, of cfg enrich u1])
  have h: "requestHandler cfg enrich (led (startCrawl u1)) \<lparr>reqUrl = u1, retryCount = 2\<rparr> pg =
      Returns (l', urls)"
    using r by (simp add: requestHandler_def)
  have np: "(0 < maxPages cfg \<and> maxPages cfg = 0) = False"
    by auto
  have "fetched (crawlStep m cfg (requestHandler cfg enrich) (\<lambda>i u. pg) ?c2) = [u1, u1, u1] \<and>
        led (crawlStep m cfg (requestHandler cfg enrich) (\<lambda>i u. pg) ?c2) = l'"
    using h by (simp add: crawlStep_def startCrawl_def Let_def addRequests_def np)
  with c3 show ?thesis by simp
qed

text \<open>
  Claim C2, as amended. In the HTTP-first program the fetches of a run are lightweight, with no
  listing page found blocked, up to the first listing fetch that the loop classifies as blocked;
  the very next fetch is that same URL in the browser, it is made at the next step, and every
  fetch after it is rendered: the lightweight loop is never resumed. (A profile page found
  blocked during enrichment is not such a classification: the base record is kept and the loop
  goes on.) The CheerioCrawler program of main.js has a single transport: its handler throws on
  a blocked page while \<open>retryCount < 2\<close>, leaving the ledger as it was, so that the crawler
  fetches the URL again; from \<open>retryCount = 2\<close> on the blocked page is processed as it was
  fetched. A page that is blocked every time is thus fetched three times by the same crawler,
  and what the third attempt extracts from it is stored.
\<close>

theorem escalation_one_way:
  "(let lg = fetchLog (runFor k env cfg (startRun u0)) in
      calm lg \<or>
      (\<exists>pre u post.
         lg = pre @ Fetched Lightweight Listing u (Some True) # post \<and> calm pre \<and>
         renderedOnly post \<and>
         (post \<noteq> [] \<longrightarrow> hd post = Fetched Rendered Listing u None) \<and>
         (post = [] \<longrightarrow>
            fetchLog (runFor (Suc k) env cfg (startRun u0)) =
              lg @ [Fetched Rendered Listing u None]))) \<and>
   (blocked_cheerio (responseStatus pg) (htmlSnapshot pg) \<longrightarrow>
      (retryCount req < 2 \<longrightarrow> requestHandler cfg enrich l req pg = Throws l) \<and>
      (2 \<le> retryCount req \<longrightarrow>
         requestHandler cfg enrich l req pg = processListing cfg enrich l req pg) \<and>
      (2 \<le> m \<and>
       processListing cfg enrich (led (startCrawl u1)) \<lparr>reqUrl = u1, retryCount = 2\<rparr> pg =
         Returns (l', urls) \<longrightarrow>
         fetched (crawlFor 3 m cfg (requestHandler cfg enrich) (\<lambda>i u. pg) (startCrawl u1)) =
           [u1, u1, u1] \<and>
         led (crawlFor 3 m cfg (requestHandler cfg enrich) (\<lambda>i u. pg) (startCrawl u1)) = l'))"
proof (intro conjI impI)
  let ?s = "runFor k env cfg (startRun u0)"
  have ok: "escalationOk ?s"
    by (rule runFor_escalation) (rule startRun_escalation)
  have "calm (fetchLog ?s) \<or>
      (\<exists>pre u post.
         fetchLog ?s = pre @ Fetched Lightweight Listing u (Some True) # post \<and> calm pre \<and>
         renderedOnly post \<and>
         (post \<noteq> [] \<longrightarrow> hd post = Fetched Rendered Listing u None) \<and>
         (post = [] \<longrightarrow>
            fetchLog (runFor (Suc k) env cfg (startRun u0)) =
              fetchLog ?s @ [Fetched Rendered Listing u None]))"
  proof (cases "phase ?s")
    case HttpLoop
    with ok show ?thesis by (simp add: escalationOk_def)
  next
    case BrowserFallback
    with ok obtain pre u post where
      e: "escalatedAt pre u post (fetchLog ?s)"
      and pend: "post = [] \<longrightarrow> fbQueue ?s = [u] \<and> fbHandled ?s < fbMaxRequests ?s"
      by (auto simp: escalationOk_def)
    have "post = [] \<longrightarrow> fetchLog (runFor (Suc k) env cfg (startRun u0)) =
              fetchLog ?s @ [Fetched Rendered Listing u None]"
      using pend pending_refetch [OF BrowserFallback, of u env cfg]
      by (simp only: runFor_Suc_right) blast
    with e show ?thesis unfolding escalatedAt_def by blast
  next
    case Finished
    with ok show ?thesis unfolding escalationOk_def escalatedAt_def by auto
  next
    case Failed
    with ok show ?thesis by (simp add: escalationOk_def)
  qed
  then show "let lg = fetchLog ?s in
      calm lg \<or>
      (\<exists>pre u post.
         lg = pre @ Fetched Lightweight Listing u (Some True) # post \<and> calm pre \<and>
         renderedOnly post \<and>
         (post \<noteq> [] \<longrightarrow> hd post = Fetched Rendered Listing u None) \<and>
         (post = [] \<longrightarrow>
            fetchLog (runFor (Suc k) env cfg (startRun u0)) =
              lg @ [Fetched Rendered Listing u None]))"
    by (simp add: Let_def)
next
  assume "blocked_cheerio (responseStatus pg) (htmlSnapshot pg)" "retryCount req < 2"
  then show "requestHandler cfg enrich l req pg = Throws l"
    by (simp add: requestHandler_def)
next
  assume "2 \<le> retryCount req"
  then show "requestHandler cfg enrich l req pg = processListing cfg enrich l req pg"
    by (simp add: requestHandler_def)
next
  assume b: "blocked_cheerio (responseStatus pg) (htmlSnapshot pg)"
    and a: "2 \<le> m \<and>
       processListing cfg enrich (led (startCrawl u1)) \<lparr>reqUrl = u1, retryCount = 2\<rparr> pg =
         Returns (l', urls)"
  from blocked_page_third_attempt [OF b, of m cfg enrich u1 l' urls] a
  show "fetched (crawlFor 3 m cfg (requestHandler cfg enrich) (\<lambda>i u. pg) (startCrawl u1)) =
           [u1, u1, u1]"
    and "led (crawlFor 3 m cfg (requestHandler cfg enrich) (\<lambda>i u. pg) (startCrawl u1)) = l'"
    by simp_all
qed

lemma blocking_site_run:
  "runSummary (runFor 1 blockingEnv (plainConfig 0 0) (startRun ''/p1'')) =
     ([], [Fetched Lightweight Listing ''/p1'' (Some True)], BrowserFallback) \<and>
   runSummary (runFor 3 blockingEnv (plainConfig 0 0) (startRun ''/p1'')) =
     ([caseyKim, danaFox],
      [Fetched Lightweight Listing ''/p1'' (Some True), Fetched Rendered Listing ''/p1'' None,
       Fetched Rendered Listing ''/p2'' None],
      Finished)"
  by (simp add: evalRun Let_def blockingEnv_def)

lemma forbidden_page_throws:
  "blocked_cheerio (responseStatus forbiddenPage) (htmlSnapshot forbiddenPage) \<and>
   requestHandler (plainConfig 0 0) id emptyLedger \<lparr>reqUrl = nevadaUrl, retryCount = 0\<rparr> forbiddenPage =
     Throws emptyLedger"
  by (simp add: requestHandler_def blocked_cheerio_def forbiddenPage_def)

lemma forbidden_page_processed:
  "processListing (plainConfig 0 0) id (led (startCrawl nevadaUrl))
       \<lparr>reqUrl = nevadaUrl, retryCount = 2\<rparr> forbiddenPage =
     Returns (\<lparr>seenWebsites = {website caseyKim}, totalScraped = 1, pagesProcessed = 1,
                dataset = [caseyKim]\<rparr>, [])"
  by (simp add: processListing_def forbiddenPage_def plainConfig_def startCrawl_def
      collectLawyers_def enrichAll_def enqueueNext_def caseyKim_def sampleLawyer_def dedupKey_def)

theorem escalation_one_way_witness:
  "fetchLog (runFor 1 blockingEnv (plainConfig 0 0) (startRun ''/p1'')) =
     [Fetched Lightweight Listing ''/p1'' (Some True)] \<and>
   fetchLog (runFor 3 blockingEnv (plainConfig 0 0) (startRun ''/p1'')) =
     [Fetched Lightweight Listing ''/p1'' (Some True), Fetched Rendered Listing ''/p1'' None,
      Fetched Rendered Listing ''/p2'' None] \<and>
   \<not> calm (fetchLog (runFor 1 blockingEnv (plainConfig 0 0) (startRun ''/p1''))) \<and>
   blocked_cheerio (responseStatus forbiddenPage) (htmlSnapshot forbiddenPage) \<and>
   requestHandler (plainConfig 0 0) id emptyLedger \<lparr>reqUrl = nevadaUrl, retryCount = 0\<rparr> forbiddenPage =
     Throws emptyLedger \<and>
   requestHandler (plainConfig 0 0) id emptyLedger \<lparr>reqUrl = nevadaUrl, retryCount = 2\<rparr> forbiddenPage =
     Returns (\<lparr>seenWebsites = {website caseyKim}, totalScraped = 1, pagesProcessed = 1,
                dataset = [caseyKim]\<rparr>, []) \<and>
   fetched (crawlFor 3 4 (plainConfig 0 0) (requestHandler (plainConfig 0 0) id)
       (\<lambda>i u. forbiddenPage) (startCrawl nevadaUrl)) = [nevadaUrl, nevadaUrl, nevadaUrl] \<and>
   dataset (led (crawlFor 3 4 (plainConfig 0 0) (requestHandler (plainConfig 0 0) id)
       (\<lambda>i u. forbiddenPage) (startCrawl nevadaUrl))) = [caseyKim]"
  using escalation_one_way [where k = 1 and env = blockingEnv and cfg = "plainConfig 0 0"
      and ?u0.0 = "''/p1''" and pg = forbiddenPage and enrich = id and l = emptyLedger
      and req = "\<lparr>reqUrl = nevadaUrl, retryCount = 0\<rparr>" and m = 4 and ?u1.0 = nevadaUrl
      and l' = "\<lparr>seenWebsites = {website caseyKim}, totalScraped = 1, pagesProcessed = 1,
                dataset = [caseyKim]\<rparr>" and urls = "[]"]
    escalation_one_way [where k = 3 and env = blockingEnv and cfg = "plainConfig 0 0"
      and ?u0.0 = "''/p1''" and pg = forbiddenPage and enrich = id and l = emptyLedger
      and req = "\<lparr>reqUrl = nevadaUrl, retryCount = 2\<rparr>" and m = 4 and ?u1.0 = nevadaUrl
      and l' = "\<lparr>seenWebsites = {website caseyKim}, totalScraped = 1, pagesProcessed = 1,
                dataset = [caseyKim]\<rparr>" and urls = "[]"]
    blocking_site_run forbidden_page_throws forbidden_page_processed
  by (simp add: runSummary_def calm_def startCrawl_def emptyLedger_def)

text \<open>
  Claim C2 as stated fails. In the HTTP-first program a profile page classified as blocked
  during enrichment is followed by another lightweight fetch; in the CheerioCrawler program a
  listing page with status 403 is fetched again by the same crawler.
\<close>

lemma challenged_profile_run:
  "runSummary (runFor 1 challengedProfileEnv enrichingConfig (startRun ''/p1'')) =
     ([caseyKim, danaFox],
      [Fetched Lightweight Listing ''/p1'' (Some False),
       Fetched Lightweight Profile (website caseyKim) (Some True),
       Fetched Lightweight Profile (website danaFox) (Some False)],
      Finished)"
  by (simp add: evalRun challengedProfileEnv_def enrichingConfig_def noDetails_def)

lemma forbidden_page_retry:
  "fetched (crawlFor 2 4 (plainConfig 0 0) (requestHandler (plainConfig 0 0) id)
       (\<lambda>i u. forbiddenPage) (startCrawl nevadaUrl)) = [nevadaUrl, nevadaUrl]"
  by code_simp

lemma challenge_body_blocked: "isBlockedHtml ''Just a moment...''"
  by code_simp

theorem escalation_counterexample:
  "fetchLog (runFor 1 challengedProfileEnv enrichingConfig (startRun ''/p1'')) =
     [Fetched Lightweight Listing ''/p1'' (Some False),
      Fetched Lightweight Profile (website caseyKim) (Some True),
      Fetched Lightweight Profile (website danaFox) (Some False)] \<and>
   isBlockedHtml ''Just a moment...'' \<and>
   blocked_cheerio (responseStatus forbiddenPage) (htmlSnapshot forbiddenPage) \<and>
   fetched (crawlFor 2 4 (plainConfig 0 0) (requestHandler (plainConfig 0 0) id)
       (\<lambda>i u. forbiddenPage) (startCrawl nevadaUrl)) = [nevadaUrl, nevadaUrl]"
  using challenged_profile_run forbidden_page_retry forbidden_page_throws challenge_body_blocked
  by (simp add: runSummary_def)

section \<open>The JSON-LD extractor on malformed payloads\<close>

lemma jsonld_entity_throws:
  "entityOf resolve now typedByNumber pageUrl = Inl TypeError"
  by (simp add: entityOf_def isLawyerType_def typedByNumber_def lookupKey_def jsOr_def)

lemma jsonld_items_single:
  "itemsOf typedByNumber = Inr [typedByNumber]"
  by (simp add: itemsOf_def typedByNumber_def isArr_def lookupKey_def)

lemma jsonld_typed_by_number:
  "extractLawyersFromJsonLd resolve now typedByNumber pageUrl = Inl TypeError"
proof -
  have "truthy typedByNumber" "isObjectType typedByNumber" "\<not> isItemList typedByNumber"
    by (simp_all add: typedByNumber_def isObjectType_def isItemList_def lookupKey_def)
  then show ?thesis
    by (simp add: extractLawyersFromJsonLd.simps [of _ _ typedByNumber] jsonld_items_single
        jsonld_entity_throws)
qed

text \<open>A well-formed entity gives its record, and a payload that is no object gives no record.\<close>

lemma jsonld_attorney_entity:
  "extractLawyersFromJsonLd (\<lambda>rel base. None) now attorneyEntity pageUrl =
     Inr [\<lparr>name = JStr ''Ann Lee'', firmName = JStr [], location = JStr [], address = JStr [],
           phone = JStr ''555-0100'', email = JStr [], website = [], practiceAreas = JStr [],
           description = JStr [], yearsLicensed = JStr [], biography = JNull, education = JNull,
           barAdmissions = JNull, languages = JNull, scrapedAt = now\<rparr>]"
  by (simp add: extractLawyersFromJsonLd.simps [of _ _ attorneyEntity] attorneyEntity_def
      itemsOf_def isArr_def isObjectType_def isItemList_def lookupKey_def entityOf_def
      isLawyerType_def jsOr_def entityRecord_def locationOf_def practiceAreasOf_def
      languagesOf_def absoluteUrl_def isStr_def)

lemma jsonld_primitive_payload:
  "extractLawyersFromJsonLd resolve now (JNum ''5'') pageUrl = Inr []"
  "extractLawyersFromJsonLd resolve now (JStr ''lawyer'') pageUrl = Inr []"
  "extractLawyersFromJsonLd resolve now (JArr [JNull, JBool True, JArr []]) pageUrl = Inr []"
  by (simp_all add: extractLawyersFromJsonLd.simps [of _ _ "JNum ''5''"]
      extractLawyersFromJsonLd.simps [of _ _ "JStr ''lawyer''"]
      extractLawyersFromJsonLd.simps [of _ _ "JArr [JNull, JBool True, JArr []]"]
      itemsOf_def isArr_def isObjectType_def isItemList_def lookupKey_def entityOf_def
      isLawyerType_def jsOr_def)

text \<open>Two more shapes that leave the extractor by an exception.\<close>

lemma jsonld_graph_by_number:
  "extractLawyersFromJsonLd resolve now graphByNumber pageUrl = Inl TypeError"
  by (simp add: extractLawyersFromJsonLd.simps [of _ _ graphByNumber] graphByNumber_def
      itemsOf_def isArr_def lookupKey_def)

lemma jsonld_list_of_null:
  "extractLawyersFromJsonLd resolve now listOfNull pageUrl = Inl TypeError"
  by (simp add: extractLawyersFromJsonLd.simps [of _ _ listOfNull] listOfNull_def
      itemsOf_def isArr_def isObjectType_def isItemList_def listItemsOf_def lookupKey_def)


text \<open>
  Claim C8. The claim says that every extractor returns a list on every payload, naming a
  JSON-LD payload whose \<open>@type\<close> is not a string. On the payload
  \<^verbatim>\<open>{"@type": 5, "name": "Ann Lee"}\<close> the JSON-LD extractor of main.js does not return: the call
  \<open>type.includes('Attorney')\<close> on the number 5 raises a \<open>TypeError\<close>, which leaves
  \<open>extractLawyersFromJsonLd\<close>, then \<open>extractLawyersFromJsonLdHtml\<close>, and then the request
  handler, so that the card the HTML extractor would have read on the same page is not stored.
\<close>

theorem jsonld_extractor_throws:
  "extractLawyersFromJsonLd resolve now typedByNumber pageUrl = Inl TypeError \<and>
   extractLawyersFromJsonLdHtml resolve now [Some typedByNumber] pageUrl = Inl TypeError \<and>
   requestHandler cfg enrich l req (typedByNumberPage resolve now pageUrl) = Throws l"
proof -
  have a: "extractLawyersFromJsonLd resolve now typedByNumber pageUrl = Inl TypeError"
    by (rule jsonld_typed_by_number)
  have t: "truthy typedByNumber" by (simp add: typedByNumber_def)
  from a t have b: "extractLawyersFromJsonLdHtml resolve now [Some typedByNumber] pageUrl = Inl TypeError"
    by (simp add: extractLawyersFromJsonLdHtml_def)
  from b have "requestHandler cfg enrich l req (typedByNumberPage resolve now pageUrl) = Throws l"
    by (simp add: requestHandler_def processListing_def typedByNumberPage_def plain_page_not_blocked)
  with a b show ?thesis by simp
qed

section \<open>Enrichment\<close>

lemma truthy_jsOr: "truthy (jsOr a b) = (truthy a \<or> truthy b)"
  by (simp add: jsOr_def)

lemma jsOr_truthy_left: "truthy a \<Longrightarrow> jsOr a b = a"
  by (simp add: jsOr_def)

text \<open>A blocked or failed fetch, and an exception inside the function, leave the record as it was.\<close>

lemma enrich_blocked_unchanged:
  assumes "html = [] \<or> isBlockedHtml_cheerio html"
  shows "enrichProfileWithDetailsHttp resolve now html pg profileUrl baseData = baseData"
  unfolding enrichProfileWithDetailsHttp_def using assms by (simp only: if_True)

lemma enrich_throw_unchanged:
  assumes "extractLawyersFromJsonLdHtml resolve now (ldScripts pg) profileUrl = Inl err"
  shows "enrichProfileWithDetailsHttp resolve now html pg profileUrl baseData = baseData"
  unfolding enrichProfileWithDetailsHttp_def by (simp only: assms sum.case if_cancel)

lemma enrich_cases:
  "enrichProfileWithDetailsHttp resolve now html pg profileUrl baseData = baseData \<or>
   (\<exists>ldLawyers. enrichProfileWithDetailsHttp resolve now html pg profileUrl baseData =
       mergedRecord pg ldLawyers baseData)"
  unfolding enrichProfileWithDetailsHttp_def by (auto split: sum.splits)

text \<open>A scalar field that is truthy in the base record is truthy in the merged record.\<close>

lemma backslashRun_nonempty: "backslashRun c s = Some (m, r) \<Longrightarrow> m \<noteq> []"
  by (auto simp add: backslashRun_def split: list.splits if_splits)

lemma licensedAt_nonempty: "licensedAt s = Some captured \<Longrightarrow> captured \<noteq> []"
  unfolding licensedAt_def
  by (auto simp add: Option.bind_eq_Some_conv dest: backslashRun_nonempty)

lemma licensedMatch_nonempty: "licensedMatch s = Some captured \<Longrightarrow> captured \<noteq> []"
  by (induction s) (auto simp add: licensedAt_nonempty split: option.splits)

lemma mergedRecord_fields:
  "email (mergedRecord pg ld b) = jsOr (mergedEmail pg ld b) (email b)"
  "phone (mergedRecord pg ld b) = mergedPhone pg ld b"
  "firmName (mergedRecord pg ld b) = mergedFirm pg ld b"
  "address (mergedRecord pg ld b) = mergedAddress pg ld b"
  "location (mergedRecord pg ld b) = mergedLocation pg ld b"
  "practiceAreas (mergedRecord pg ld b) = mergedPractice pg ld b"
  "description (mergedRecord pg ld b) = jsOr (mergedDesc pg ld b) (description b)"
  "yearsLicensed (mergedRecord pg ld b) = detailYears pg b"
  "biography (mergedRecord pg ld b) =
     jsOr (detailBiography pg) (jsOr (ldField biography ld) (biography b))"
  "languages (mergedRecord pg ld b) =
     listOr (trimmedTexts (languageTexts pg)) (jsOr (ldField languages ld) (languages b))"
  "name (mergedRecord pg ld b) = name b"
  "website (mergedRecord pg ld b) = website b"
  "scrapedAt (mergedRecord pg ld b) = scrapedAt b"
  by (simp_all add: mergedRecord_def)

lemma mergedRecord_keeps_scalars:
  "truthy (email b) \<Longrightarrow> truthy (email (mergedRecord pg ld b))"
  "truthy (phone b) \<Longrightarrow> truthy (phone (mergedRecord pg ld b))"
  "truthy (firmName b) \<Longrightarrow> truthy (firmName (mergedRecord pg ld b))"
  "truthy (address b) \<Longrightarrow> truthy (address (mergedRecord pg ld b))"
  "truthy (location b) \<Longrightarrow> truthy (location (mergedRecord pg ld b))"
  "truthy (practiceAreas b) \<Longrightarrow> truthy (practiceAreas (mergedRecord pg ld b))"
  "truthy (description b) \<Longrightarrow> truthy (description (mergedRecord pg ld b))"
  "truthy (biography b) \<Longrightarrow> truthy (biography (mergedRecord pg ld b))"
  by (simp_all add: mergedRecord_fields mergedEmail_def mergedPhone_def mergedFirm_def
      mergedAddress_def mergedLocation_def mergedPractice_def mergedDesc_def truthy_jsOr)

lemma mergedRecord_keeps_years:
  "truthy (yearsLicensed b) \<Longrightarrow> truthy (yearsLicensed (mergedRecord pg ld b))"
  by (auto simp add: mergedRecord_fields detailYears_def licensedMatch_nonempty split: option.splits)

text \<open>Where the base record has a phone number, the phone of a JSON-LD record is never used.\<close>

lemma mergedPhone_ignores_jsonld:
  "truthy (phone b) \<Longrightarrow> mergedPhone pg ld b = detailPhone pg b"
  by (simp add: mergedPhone_def detailPhone_def jsOr_def)

text \<open>The detail page of the sample: its JSON-LD record has the phone number 555-0199.\<close>

lemma ld_only_profile_record:
  "extractLawyersFromJsonLdHtml (\<lambda>rel base. None) now (ldScripts ldOnlyProfile) profileUrl =
     Inr [\<lparr>name = JStr ''Ann Lee'', firmName = JStr [], location = JStr [], address = JStr [],
           phone = JStr ''555-0199'', email = JStr [], website = [], practiceAreas = JStr [],
           description = JStr [], yearsLicensed = JStr [], biography = JNull, education = JNull,
           barAdmissions = JNull, languages = JArr [], scrapedAt = now\<rparr>]"
  by (simp add: extractLawyersFromJsonLdHtml_def ldOnlyProfile_def bareProfile_def
      extractLawyersFromJsonLd.simps [of _ _ annLeeLd] annLeeLd_def
      itemsOf_def isArr_def isObjectType_def isItemList_def lookupKey_def entityOf_def
      isLawyerType_def jsOr_def entityRecord_def locationOf_def practiceAreasOf_def
      languagesOf_def absoluteUrl_def isStr_def)

text \<open>
  Claim C6. The claim gives the merge precedence as detail-page field over detail-page JSON-LD
  over base value, and says that no non-empty base value is replaced by an empty detail value.
  For a base record with phone 555-0100 and two languages, and a detail page on which no
  selector finds anything and whose JSON-LD block gives the phone 555-0199 and an empty language
  list, the merged record keeps the base phone 555-0100, the base value winning over the
  JSON-LD value, and its languages are the empty list of the JSON-LD block.
\<close>

theorem enrichment_base_over_jsonld:
  "phone (enrichProfileWithDetailsHttp (\<lambda>rel base. None) now ''<html>...</html>'' ldOnlyProfile
            profileUrl annLeeListed) = JStr ''555-0100'' \<and>
   languages (enrichProfileWithDetailsHttp (\<lambda>rel base. None) now ''<html>...</html>'' ldOnlyProfile
            profileUrl annLeeListed) = JArr [] \<and>
   phone annLeeListed = JStr ''555-0100'' \<and>
   languages annLeeListed = JArr [JStr ''English'', JStr ''Spanish''] \<and>
   map phone (projr (extractLawyersFromJsonLdHtml (\<lambda>rel base. None) now (ldScripts ldOnlyProfile)
      profileUrl)) = [JStr ''555-0199'']"
proof -
  let ?e = "enrichProfileWithDetailsHttp (\<lambda>rel base. None) now ''<html>...</html>'' ldOnlyProfile
            profileUrl annLeeListed"
  let ?ld = "projr (extractLawyersFromJsonLdHtml (\<lambda>rel base. None) now
      (ldScripts ldOnlyProfile) profileUrl)"
  have nb: "(''<html>...</html>'' = [] \<or> isBlockedHtml_cheerio ''<html>...</html>'') = False"
    using plain_page_not_blocked by (simp add: blocked_cheerio_def)
  have e: "?e = mergedRecord ldOnlyProfile ?ld annLeeListed"
    unfolding enrichProfileWithDetailsHttp_def
    by (simp only: nb if_False ld_only_profile_record sum.case sum.sel)
  have b: "phone annLeeListed = JStr ''555-0100''"
    "languages annLeeListed = JArr [JStr ''English'', JStr ''Spanish'']"
    by (simp_all add: annLeeListed_def)
  have t: "telText ldOnlyProfile = []" "telHref ldOnlyProfile = None"
    "telephoneText ldOnlyProfile = []" "languageTexts ldOnlyProfile = []"
    by (simp_all add: ldOnlyProfile_def bareProfile_def)
  have p: "phone ?e = JStr ''555-0100''"
    by (simp add: e mergedRecord_fields mergedPhone_def detailPhone_def t b jsOr_def trim_def)
  have l: "languages ?e = JArr []"
    by (simp add: e mergedRecord_fields t trimmedTexts_def listOr_def ldField_def
        ld_only_profile_record jsOr_def)
  have j: "map phone ?ld = [JStr ''555-0199'']"
    by (simp add: ld_only_profile_record)
  from p l b j show ?thesis by simp
qed

end
